theory Spec2Isabelle
  imports Complex_Main "HOL-Library.Sublist" "HOL-Library.AList"
begin

section \<open>JavaScript strings and numbers\<close>

text \<open>
  Strings are lists of characters and every input is taken to be ASCII: case conversion
  touches the 26 letters only, and white space is the six ASCII white-space characters.
  Numbers are exact rationals: no NaN, no infinity and no rounding. A property of an
  object that may be absent is an \<open>option\<close>, \<open>None\<close> standing for \<open>undefined\<close>.
\<close>

definition digits :: string where
  "digits = ''0123456789''"

definition upper_letters :: string where
  "upper_letters = ''ABCDEFGHIJKLMNOPQRSTUVWXYZ''"

definition lower_letters :: string where
  "lower_letters = ''abcdefghijklmnopqrstuvwxyz''"

definition is_digit :: "char \<Rightarrow> bool" where
  "is_digit c = (c \<in> set digits)"

definition is_upper :: "char \<Rightarrow> bool" where
  "is_upper c = (c \<in> set upper_letters)"

definition is_lower :: "char \<Rightarrow> bool" where
  "is_lower c = (c \<in> set lower_letters)"

definition is_letter :: "char \<Rightarrow> bool" where
  "is_letter c = (is_lower c \<or> is_upper c)"

text \<open>The class \<open>\s\<close>: tab, line feed, vertical tab, form feed, carriage return, space.\<close>

definition is_space :: "char \<Rightarrow> bool" where
  "is_space c = (c \<in> set [CHR 0x09, CHR 0x0A, CHR 0x0B, CHR 0x0C, CHR 0x0D, CHR '' ''])"

definition lower_char :: "char \<Rightarrow> char" where
  "lower_char c = (case map_of (zip upper_letters lower_letters) c of Some d \<Rightarrow> d | None \<Rightarrow> c)"

definition upper_char :: "char \<Rightarrow> char" where
  "upper_char c = (case map_of (zip lower_letters upper_letters) c of Some d \<Rightarrow> d | None \<Rightarrow> c)"

definition toLowerCase :: "string \<Rightarrow> string" where
  "toLowerCase s = map lower_char s"

definition toUpperCase :: "string \<Rightarrow> string" where
  "toUpperCase s = map upper_char s"

definition trim :: "string \<Rightarrow> string" where
  "trim s = rev (dropWhile is_space (rev (dropWhile is_space s)))"

text \<open>\<open>text.startsWith(pat)\<close> and \<open>text.includes(pat)\<close>.\<close>

fun startsWith :: "string \<Rightarrow> string \<Rightarrow> bool" where
  "startsWith t [] = True"
| "startsWith [] (p # ps) = False"
| "startsWith (c # cs) (p # ps) = (c = p \<and> startsWith cs ps)"

fun includes_str :: "string \<Rightarrow> string \<Rightarrow> bool" where
  "includes_str [] pat = (pat = [])"
| "includes_str (c # cs) pat = (startsWith (c # cs) pat \<or> includes_str cs pat)"

text \<open>\<open>text.substring(0, n)\<close>.\<close>

definition substring0 :: "nat \<Rightarrow> string \<Rightarrow> string" where
  "substring0 n s = take n s"

text \<open>The regular expression \<open>/^\d+$/\<close>, and the value \<open>parseInt\<close> gives on such a text.\<close>

definition only_digits :: "string \<Rightarrow> bool" where
  "only_digits s = (s \<noteq> [] \<and> list_all is_digit s)"

definition digit_val :: "char \<Rightarrow> nat" where
  "digit_val c = (case map_of (zip digits [0 ..< 10]) c of Some d \<Rightarrow> d | None \<Rightarrow> 0)"

definition parseInt_digits :: "string \<Rightarrow> nat" where
  "parseInt_digits s = foldl (\<lambda>n c. 10 * n + digit_val c) 0 s"

text \<open>\<open>x || 0\<close> and \<open>x > 0\<close> on a number that may be \<open>undefined\<close>.\<close>

definition or0 :: "rat option \<Rightarrow> rat" where
  "or0 x = (case x of None \<Rightarrow> 0 | Some v \<Rightarrow> v)"

definition gt0 :: "rat option \<Rightarrow> bool" where
  "gt0 x = (case x of None \<Rightarrow> False | Some v \<Rightarrow> 0 < v)"

text \<open>Truthiness of a string that may be \<open>undefined\<close>, and \<open>a || b\<close> on two of them.\<close>

definition truthy :: "string option \<Rightarrow> bool" where
  "truthy x = (case x of None \<Rightarrow> False | Some s \<Rightarrow> s \<noteq> [])"

definition orS :: "string option \<Rightarrow> string option \<Rightarrow> string option" where
  "orS a b = (if truthy a then a else b)"

section \<open>The title classifier\<close>

text \<open>The character class \<open>[a-zA-Z0-9\s\-:.,'"!?&()]\<close>.\<close>

definition valid_title_char :: "char \<Rightarrow> bool" where
  "valid_title_char c =
     (is_letter c \<or> is_digit c \<or> is_space c \<or>
      c \<in> set [CHR ''-'', CHR '':'', CHR ''.'', CHR '','', CHR 0x27, CHR 0x22,
                 CHR ''!'', CHR ''?'', CHR ''&'', CHR ''('', CHR '')''])"

text \<open>\<open>isLikelyBookTitle\<close> of kdp-extension/content.js.\<close>

definition uiKeywords :: "string list" where
  "uiKeywords =
     [''dashboard'', ''report'', ''total'', ''summary'', ''date'', ''filter'', ''export'',
      ''download'', ''view'', ''details'', ''more'', ''less'', ''expand'', ''collapse'',
      ''royalties'', ''earnings'', ''sales'', ''kindle'', ''direct'', ''publishing'',
      ''amazon'', ''select'', ''unlimited'', ''kenp'', ''asin'', ''marketplace'',
      ''currency'', ''period'', ''range'', ''month'', ''year'', ''today'', ''yesterday'',
      ''week'', ''quarter'', ''loading'', ''please wait'', ''no data'', ''error'']"

definition isLikelyBookTitle :: "string \<Rightarrow> bool" where
  "isLikelyBookTitle text =
     (if text = [] \<or> length text < 3 \<or> length text > 200 then False
      else let lowerText = toLowerCase text;
               hasUIKeyword = list_ex (\<lambda>keyword. includes_str lowerText keyword) uiKeywords
           in if hasUIKeyword then False
              else let hasLetters = list_ex is_letter text;
                       notAllCaps = (text \<noteq> toUpperCase text \<or> length text < 20);
                       notOnlyNumbers = (\<not> only_digits text);
                       notOnlySymbols =
                         (\<not> (text \<noteq> [] \<and>
                             list_all (\<lambda>c. \<not> (is_letter c \<or> is_digit c \<or> is_space c)) text));
                       hasValidChars = (text \<noteq> [] \<and> list_all valid_title_char text)
                   in hasLetters \<and> notAllCaps \<and> notOnlyNumbers \<and> notOnlySymbols \<and>
                      hasValidChars)"

text \<open>\<open>isLikelyBookTitle\<close> of the advanced content script (src/unnamed/part_000).\<close>

definition uiKeywords_adv :: "string list" where
  "uiKeywords_adv =
     [''dashboard'', ''report'', ''total'', ''summary'', ''date'', ''filter'', ''export'',
      ''view'', ''details'', ''royalties'', ''earnings'', ''sales'', ''kindle'', ''asin'']"

definition isLikelyBookTitle_adv :: "string \<Rightarrow> bool" where
  "isLikelyBookTitle_adv text =
     (if text = [] \<or> length text < 3 \<or> length text > 300 then False
      else let lowerText = toLowerCase text
           in if list_ex (\<lambda>keyword. lowerText = keyword) uiKeywords_adv then False
              else let hasLetters = list_ex is_letter text;
                       notOnlyNumbers = (\<not> only_digits text);
                       hasValidChars = (text \<noteq> [] \<and> list_all valid_title_char text)
                   in hasLetters \<and> notOnlyNumbers \<and> hasValidChars)"

section \<open>Errors and candidate records\<close>

text \<open>The exceptions the modelled code can raise, each with its message.\<close>

datatype js_error = ReferenceError string | TypeError string | RangeError string

text \<open>
  A book object as the extractors and the merge functions build it. Every property is
  optional, since the object literals of the different extractors carry different
  properties; \<open>book_id\<close> is the property \<open>id\<close>.
\<close>

record book =
  title :: "string option"
  totalRoyalties :: "rat option"
  totalSales :: "rat option"
  kenpReads :: "rat option"
  kenpRoyalties :: "rat option"
  asin :: "string option"
  marketplace :: "string option"
  country :: "string option"
  source :: "string option"
  extractedAt :: "string option"
  book_id :: "string option"
  lastUpdated :: "string option"

section \<open>The table row extractor (kdp-extension/content.js)\<close>

text \<open>
  One match of \<open>/\$[\d,]+\.?\d*/\<close> anchored at the head of the text. Every part after
  the dollar sign is greedy and what follows it may match the empty string, so the match
  never backtracks.
\<close>

definition money_at :: "string \<Rightarrow> string option" where
  "money_at s =
     (case s of
        [] \<Rightarrow> None
      | c # cs \<Rightarrow>
          if c \<noteq> CHR ''$'' then None
          else let body = takeWhile (\<lambda>d. is_digit d \<or> d = CHR '','') cs;
                   r1 = dropWhile (\<lambda>d. is_digit d \<or> d = CHR '','') cs
               in if body = [] then None
                  else (case r1 of
                          [] \<Rightarrow> Some (c # body)
                        | d # r2 \<Rightarrow>
                            if d = CHR ''.'' then Some (c # body @ d # takeWhile is_digit r2)
                            else Some (c # body)))"

text \<open>
  \<open>text.match(/\$[\d,]+\.?\d*/g)\<close>: all matches from left to right, the search resuming
  after each match. The first argument counts the characters of the last match still to
  be skipped. The empty list stands for \<open>null\<close>.
\<close>

fun money_scan :: "nat \<Rightarrow> string \<Rightarrow> string list" where
  "money_scan n [] = []"
| "money_scan (Suc n) (c # cs) = money_scan n cs"
| "money_scan 0 (c # cs) =
     (case money_at (c # cs) of
        Some m \<Rightarrow> m # money_scan (length m - 1) cs
      | None \<Rightarrow> money_scan 0 cs)"

definition money_matches :: "string \<Rightarrow> string list" where
  "money_matches text = money_scan 0 text"

text \<open>
  \<open>parseFloat\<close> on a text of digits with at most one decimal point, which is all that
  is left of a money match once \<open>$\<close> and commas are removed; \<open>None\<close> is NaN.
\<close>

definition parseFloat_dec :: "string \<Rightarrow> rat option" where
  "parseFloat_dec s =
     (let ip = takeWhile is_digit s;
          r = dropWhile is_digit s;
          fp = (case r of [] \<Rightarrow> [] | d # r' \<Rightarrow> if d = CHR ''.'' then takeWhile is_digit r' else [])
      in if ip = [] \<and> fp = [] then None
         else Some (of_nat (parseInt_digits ip) + of_nat (parseInt_digits fp) / 10 ^ length fp))"

text \<open>\<open>amount.replace(/[$,]/g, '')\<close>.\<close>

definition strip_money :: "string \<Rightarrow> string" where
  "strip_money amount = filter (\<lambda>c. c \<noteq> CHR ''$'' \<and> c \<noteq> CHR '','') amount"

text \<open>\<open>text.match(/\d+/)\<close>: the first maximal run of digits.\<close>

definition first_digits :: "string \<Rightarrow> string option" where
  "first_digits text =
     (let r = dropWhile (\<lambda>c. \<not> is_digit c) text
      in if r = [] then None else Some (takeWhile is_digit r))"

text \<open>\<open>text.match(/[A-Z0-9]{10}/)\<close>: the leftmost ten consecutive characters of the class.\<close>

definition is_asin_char :: "char \<Rightarrow> bool" where
  "is_asin_char c = (is_upper c \<or> is_digit c)"

fun asin_match :: "string \<Rightarrow> string option" where
  "asin_match [] = None"
| "asin_match (c # cs) =
     (if 10 \<le> length (takeWhile is_asin_char (c # cs)) then Some (take 10 (c # cs))
      else asin_match cs)"

definition countryMap :: "(string \<times> string) list" where
  "countryMap =
     [(''.com'', ''US''), (''.co.uk'', ''UK''), (''.de'', ''DE''), (''.fr'', ''FR''),
      (''.it'', ''IT''), (''.es'', ''ES''), (''.co.jp'', ''JP''), (''.ca'', ''CA''),
      (''.com.au'', ''AU''), (''.com.br'', ''BR''), (''.in'', ''IN''), (''.com.mx'', ''MX'')]"

definition extractCountryFromMarketplace :: "string \<Rightarrow> string" where
  "extractCountryFromMarketplace mp =
     (case find (\<lambda>(domain, c). includes_str mp domain) countryMap of
        Some (domain, c) \<Rightarrow> c
      | None \<Rightarrow> ''US'')"

text \<open>The local variables of \<open>extractBookDataFromRow\<close>.\<close>

record row_vars =
  v_title :: string
  v_revenue :: rat
  v_sales :: nat
  v_kenpReads :: nat
  v_kenpRoyalties :: rat
  v_asin :: string
  v_marketplace :: string

definition row_init :: row_vars where
  "row_init = \<lparr>v_title = [], v_revenue = 0, v_sales = 0, v_kenpReads = 0,
     v_kenpRoyalties = 0, v_asin = [], v_marketplace = []\<rparr>"

text \<open>
  The body of the \<open>cells.forEach\<close> callback on one cell, given the cell's text content.
  In the KENP branch the statement \<open>const reads = parseInt(kempMatch[0])\<close> reads the
  identifier \<open>kempMatch\<close>, which no scope declares: evaluating it raises a
  ReferenceError, so the two statements after it never run.
\<close>

definition row_cell :: "row_vars \<Rightarrow> string \<Rightarrow> js_error + row_vars" where
  "row_cell v cellText =
     (let text = trim cellText;
          v1 = (if length text > 10 \<and> \<not> includes_str text ''$'' \<and> \<not> only_digits text \<and>
                   \<not> includes_str text ''KENP'' \<and> isLikelyBookTitle text
                then v\<lparr>v_title := text\<rparr> else v);
          v2 = v1\<lparr>v_revenue :=
                 foldl (\<lambda>revenue amount.
                          case parseFloat_dec (strip_money amount) of
                            None \<Rightarrow> revenue
                          | Some value \<Rightarrow> if value > revenue then value else revenue)
                   (v_revenue v1) (money_matches text)\<rparr>;
          v3 = (if only_digits text \<and> parseInt_digits text > 0 \<and> parseInt_digits text < 10000
                then (if parseInt_digits text > v_sales v2
                      then v2\<lparr>v_sales := parseInt_digits text\<rparr> else v2)
                else v2)
      in if (includes_str text ''KENP'' \<or>
             (3 \<le> length text \<and> only_digits text \<and> parseInt_digits text > 100)) \<and>
            first_digits text \<noteq> None
         then Inl (ReferenceError ''kempMatch is not defined'')
         else let v4 = (case asin_match text of
                          Some m \<Rightarrow> if v_asin v3 = [] then v3\<lparr>v_asin := m\<rparr> else v3
                        | None \<Rightarrow> v3);
                  v5 = (if includes_str text ''.com'' \<or> includes_str text ''.co.uk'' \<or>
                           includes_str text ''.de''
                        then v4\<lparr>v_marketplace := text\<rparr> else v4)
              in Inr v5)"

text \<open>\<open>cells.forEach\<close>: the cells in order; an exception ends the loop.\<close>

fun row_cells :: "row_vars \<Rightarrow> string list \<Rightarrow> js_error + row_vars" where
  "row_cells v [] = Inr v"
| "row_cells v (cell # cells) =
     (case row_cell v cell of Inl e \<Rightarrow> Inl e | Inr v' \<Rightarrow> row_cells v' cells)"

text \<open>
  \<open>extractBookDataFromRow(cells, source)\<close>; \<open>now\<close> is the value of
  \<open>new Date().toISOString()\<close>, and \<open>Inr None\<close> is the result \<open>null\<close>.
\<close>

definition extractBookDataFromRow :: "string list \<Rightarrow> string \<Rightarrow> string \<Rightarrow> js_error + book option" where
  "extractBookDataFromRow cells src now =
     (case row_cells row_init cells of
        Inl e \<Rightarrow> Inl e
      | Inr v \<Rightarrow>
          let kenpRoyalties' =
                (if v_kenpReads v > 0 \<and> v_kenpRoyalties v = 0
                 then of_nat (v_kenpReads v) * (4 / 1000) else v_kenpRoyalties v)
          in if v_title v \<noteq> [] \<and> (v_revenue v > 0 \<or> v_sales v > 0 \<or> v_kenpReads v > 0)
             then Inr (Some \<lparr>title = Some (v_title v),
                              totalRoyalties = Some (v_revenue v),
                              totalSales = Some (of_nat (v_sales v)),
                              kenpReads = Some (of_nat (v_kenpReads v)),
                              kenpRoyalties = Some kenpRoyalties',
                              asin = Some (v_asin v),
                              marketplace =
                                Some (if v_marketplace v \<noteq> [] then v_marketplace v
                                      else ''amazon.com''),
                              country = Some (extractCountryFromMarketplace (v_marketplace v)),
                              source = Some src,
                              extractedAt = Some now,
                              book_id = None,
                              lastUpdated = None\<rparr>)
             else Inr None)"

text \<open>
  The loop of \<open>extractFromTables\<close> over the rows of the tables: a row of fewer than two
  cells is skipped, a row whose extraction gives a titled book is pushed, and an exception
  leaves the function. A row is given with its source tag.
\<close>

fun extractFromTables :: "(string list \<times> string) list \<Rightarrow> string \<Rightarrow> js_error + book list" where
  "extractFromTables [] now = Inr []"
| "extractFromTables ((cells, src) # rows) now =
     (if 2 \<le> length cells
      then (case extractBookDataFromRow cells src now of
              Inl e \<Rightarrow> Inl e
            | Inr bookData \<Rightarrow>
                (case extractFromTables rows now of
                   Inl e \<Rightarrow> Inl e
                 | Inr books \<Rightarrow>
                     (case bookData of
                        Some b \<Rightarrow> if truthy (title b) then Inr (b # books) else Inr books
                      | None \<Rightarrow> Inr books)))
      else extractFromTables rows now)"

section \<open>The nested-object extractor (kdp-extension/content.js)\<close>

text \<open>
  The input is a JSON-like value whose objects and arrays live in a store, so that two
  properties may hold the same object and an object may contain itself. An object is the
  list of its own enumerable properties in enumeration order.
\<close>

type_synonym addr = nat

datatype jsval = JUndefined | JNull | JBool bool | JNum rat | JStr string | JRef addr

datatype jsobj = JObject "(string \<times> jsval) list" | JArray "jsval list"

type_synonym heap = "addr \<Rightarrow> jsobj"




text \<open>Decimal rendering of an array index inside a template string.\<close>

function string_of_nat :: "nat \<Rightarrow> string" where
  "string_of_nat n =
     (if n < 10 then [digits ! n]
      else string_of_nat (n div 10) @ [digits ! (n mod 10)])"
  by pat_completeness auto
termination
  by (relation "measure id") auto

declare string_of_nat.simps [simp del]







text \<open>The keys and values that \<open>for (const key in o)\<close> enumerates.\<close>

definition entries :: "jsobj \<Rightarrow> (string \<times> jsval) list" where
  "entries ob =
     (case ob of
        JObject props \<Rightarrow> props
      | JArray items \<Rightarrow> zip (map string_of_nat [0 ..< length items]) items)"






text \<open>
  Two statements in sequence, each pushing books or raising: an exception of the first
  is the exception of both, otherwise an exception of the second is.
\<close>

definition then_books :: "js_error + 'a list \<Rightarrow> js_error + 'a list \<Rightarrow> js_error + 'a list" where
  "then_books r1 r2 =
     (case r1 of
        Inl e \<Rightarrow> Inl e
      | Inr xs \<Rightarrow> (case r2 of Inl e \<Rightarrow> Inl e | Inr ys \<Rightarrow> Inr (xs @ ys)))"



text \<open>
  The references an object holds, and the objects from which every chain of references
  has fewer than \<open>n\<close> links: an acyclic part of the store, of depth at most \<open>n\<close>.
\<close>

definition refs_in :: "(string \<times> jsval) list \<Rightarrow> addr list" where
  "refs_in kvs = concat (map (\<lambda>(k, v). case v of JRef b \<Rightarrow> [b] | _ \<Rightarrow> []) kvs)"

definition refs_of :: "jsobj \<Rightarrow> addr list" where
  "refs_of ob = refs_in (entries ob)"

fun depth_at_most :: "nat \<Rightarrow> heap \<Rightarrow> addr \<Rightarrow> bool" where
  "depth_at_most 0 h a = False"
| "depth_at_most (Suc n) h a = list_all (depth_at_most n h) (refs_of (h a))"








section \<open>The merge engine of kdp-extension/content.js\<close>

text \<open>
  A JavaScript \<open>Map\<close> with string keys is an association list in insertion order:
  \<open>has\<close> and \<open>get\<close> are \<open>map_of\<close>, \<open>set\<close> replaces the value of a key in place or
  appends a new entry (\<open>AList.update\<close>), and \<open>values()\<close> lists the values in that order.
\<close>

type_synonym bookMap = "(string \<times> book) list"

text \<open>\<open>book.title.toLowerCase().trim()\<close>.\<close>

definition normTitle :: "string \<Rightarrow> string" where
  "normTitle t = trim (toLowerCase t)"

text \<open>The key under which a book with a title is stored.\<close>

definition titleKey :: "book \<Rightarrow> string" where
  "titleKey b = (case title b of Some t \<Rightarrow> normTitle t | None \<Rightarrow> [])"

text \<open>\<open>a || b\<close> where \<open>b\<close> is a string literal.\<close>

definition orDefault :: "string option \<Rightarrow> string \<Rightarrow> string option" where
  "orDefault a d = (if truthy a then a else Some d)"

text \<open>The object stored for a key already in the map, and the object stored for a new key.\<close>

definition merged_entry :: "book \<Rightarrow> book \<Rightarrow> book" where
  "merged_entry existing b =
     existing\<lparr>totalRoyalties := Some (max (or0 (totalRoyalties existing)) (or0 (totalRoyalties b))),
              totalSales := Some (max (or0 (totalSales existing)) (or0 (totalSales b))),
              kenpReads := Some (max (or0 (kenpReads existing)) (or0 (kenpReads b))),
              kenpRoyalties := Some (max (or0 (kenpRoyalties existing)) (or0 (kenpRoyalties b))),
              asin := orDefault (orS (asin existing) (asin b)) [],
              marketplace := orDefault (orS (marketplace existing) (marketplace b)) ''amazon.com'',
              country := orDefault (orS (country existing) (country b)) ''US''\<rparr>"

definition new_entry :: "string \<Rightarrow> book \<Rightarrow> book" where
  "new_entry now b =
     \<lparr>title = title b,
      totalRoyalties = Some (or0 (totalRoyalties b)),
      totalSales = Some (or0 (totalSales b)),
      kenpReads = Some (or0 (kenpReads b)),
      kenpRoyalties =
        Some (if or0 (kenpRoyalties b) \<noteq> 0 then or0 (kenpRoyalties b)
              else or0 (kenpReads b) * (4 / 1000)),
      asin = orDefault (asin b) [],
      marketplace = orDefault (marketplace b) ''amazon.com'',
      country = orDefault (country b) ''US'',
      source = orDefault (source b) ''unknown'',
      extractedAt = orDefault (extractedAt b) now,
      book_id = None,
      lastUpdated = None\<rparr>"

text \<open>The callback of \<open>books.forEach\<close>, as a function on the map.\<close>

definition dedup_step :: "string \<Rightarrow> bookMap \<Rightarrow> book \<Rightarrow> bookMap" where
  "dedup_step now m b =
     (case title b of
        None \<Rightarrow> m
      | Some t \<Rightarrow>
          if t = [] then m
          else let key = normTitle t
               in (case map_of m key of
                     Some existing \<Rightarrow> AList.update key (merged_entry existing b) m
                   | None \<Rightarrow> AList.update key (new_entry now b) m))"

text \<open>The filter applied to the values of the map.\<close>

definition has_signal :: "book \<Rightarrow> bool" where
  "has_signal b =
     (case title b of
        None \<Rightarrow> False
      | Some t \<Rightarrow>
          length t > 2 \<and> (gt0 (totalRoyalties b) \<or> gt0 (totalSales b) \<or> gt0 (kenpReads b)))"

definition processAndDeduplicateBooks :: "string \<Rightarrow> book list \<Rightarrow> book list" where
  "processAndDeduplicateBooks now books =
     filter has_signal (map snd (foldl (dedup_step now) [] books))"

text \<open>
  The candidates that the callback stores under the key \<open>k\<close>, in the order of the input:
  those with a non-empty title whose normalized title is \<open>k\<close>. The map entry of \<open>k\<close>
  carries the title of the first of them and, in each metric, the maximum over all of
  them, so the entry passes the filter exactly if the first title is longer than two
  characters and some candidate of the group has a positive metric.
\<close>

definition title_group :: "book list \<Rightarrow> string \<Rightarrow> book list" where
  "title_group books k = filter (\<lambda>b. truthy (title b) \<and> titleKey b = k) books"

definition signals :: "book \<Rightarrow> bool" where
  "signals b = (gt0 (totalRoyalties b) \<or> gt0 (totalSales b) \<or> gt0 (kenpReads b))"

definition kept_title :: "book list \<Rightarrow> string \<Rightarrow> bool" where
  "kept_title books k =
     (case title_group books k of
        [] \<Rightarrow> False
      | b0 # rest \<Rightarrow>
          (case title b0 of None \<Rightarrow> False | Some t \<Rightarrow> 2 < length t) \<and>
          list_ex signals (b0 # rest))"

section \<open>The merge engine of the advanced content script (src/unnamed/part_000)\<close>

definition isValidBookData :: "book \<Rightarrow> bool" where
  "isValidBookData b =
     (case title b of
        None \<Rightarrow> False
      | Some t \<Rightarrow>
          t \<noteq> [] \<and> length t > 2 \<and>
          (gt0 (totalRoyalties b) \<or> gt0 (totalSales b) \<or> gt0 (kenpReads b)))"

text \<open>
  What one call of \<open>enhanceBookData\<close> draws when it generates an id: the eight bytes that
  \<open>crypto.getRandomValues\<close> writes, or, where that function is missing, the value of
  \<open>Date.now()\<close> and the nine characters kept of \<open>Math.random().toString(36)\<close>.
\<close>

datatype draw = CryptoBytes "nat list" | TimeAndRandom nat string

definition hex_digits :: string where
  "hex_digits = ''0123456789abcdef''"

text \<open>\<open>b.toString(16).padStart(2, '0')\<close> for a byte \<open>b\<close>.\<close>

definition hex_byte :: "nat \<Rightarrow> string" where
  "hex_byte b = [hex_digits ! ((b mod 256) div 16), hex_digits ! (b mod 16)]"

definition generated_id :: "draw \<Rightarrow> string" where
  "generated_id r =
     (case r of
        CryptoBytes bytes \<Rightarrow> concat (map hex_byte bytes)
      | TimeAndRandom t s \<Rightarrow> ''book_'' @ string_of_nat t @ ''_'' @ s)"

text \<open>
  \<open>enhanceBookData(book)\<close>, with the draw its id generation would make. The comparison
  \<open>book.kenpRoyalties === 0\<close> is strict, so it fails on a missing property.
\<close>

definition enhanceBookData :: "draw \<Rightarrow> book \<Rightarrow> book" where
  "enhanceBookData r b =
     (let b1 = (if gt0 (kenpReads b) \<and> kenpRoyalties b = Some 0
                then b\<lparr>kenpRoyalties := Some (or0 (kenpReads b) * (4 / 1000))\<rparr> else b);
          b2 = (if \<not> truthy (country b1) then b1\<lparr>country := Some ''US''\<rparr> else b1)
      in if \<not> truthy (book_id b2) \<and> \<not> truthy (asin b2)
         then b2\<lparr>book_id := Some (generated_id r)\<rparr> else b2)"

text \<open>\<open>mergeBookData(existing, newBook)\<close>; \<open>now\<close> is the value of \<open>new Date().toISOString()\<close>.\<close>

definition mergeBookData :: "string \<Rightarrow> book \<Rightarrow> book \<Rightarrow> book" where
  "mergeBookData now existing newBook =
     existing\<lparr>totalRoyalties := Some (max (or0 (totalRoyalties existing)) (or0 (totalRoyalties newBook))),
              totalSales := Some (max (or0 (totalSales existing)) (or0 (totalSales newBook))),
              kenpReads := Some (max (or0 (kenpReads existing)) (or0 (kenpReads newBook))),
              kenpRoyalties := Some (max (or0 (kenpRoyalties existing)) (or0 (kenpRoyalties newBook))),
              asin := orS (asin existing) (asin newBook),
              country := orS (country existing) (country newBook),
              lastUpdated := Some now\<rparr>"

text \<open>\<open>book.asin || book.title.toLowerCase().trim()\<close>, on a book with a title.\<close>

definition dedupKey :: "book \<Rightarrow> string" where
  "dedupKey b =
     (case asin b of
        Some a \<Rightarrow> if a \<noteq> [] then a else normTitle (case title b of Some t \<Rightarrow> t | None \<Rightarrow> [])
      | None \<Rightarrow> normTitle (case title b of Some t \<Rightarrow> t | None \<Rightarrow> []))"

text \<open>
  The callback of \<open>books.forEach\<close>. The state is the map and the number of books enhanced
  so far; \<open>rnd i\<close> is the draw of the call of \<open>enhanceBookData\<close> numbered \<open>i\<close>.
\<close>

definition dedup_step_adv ::
    "string \<Rightarrow> (nat \<Rightarrow> draw) \<Rightarrow> bookMap \<times> nat \<Rightarrow> book \<Rightarrow> bookMap \<times> nat" where
  "dedup_step_adv now rnd st b =
     (if \<not> isValidBookData b then st
      else let key = dedupKey b
           in (case map_of (fst st) key of
                 Some existing \<Rightarrow> (AList.update key (mergeBookData now existing b) (fst st), snd st)
               | None \<Rightarrow>
                   (AList.update key (enhanceBookData (rnd (snd st)) b) (fst st), Suc (snd st))))"

definition processAndDeduplicateBooks_adv :: "string \<Rightarrow> (nat \<Rightarrow> draw) \<Rightarrow> book list \<Rightarrow> book list" where
  "processAndDeduplicateBooks_adv now rnd books =
     map snd (fst (foldl (dedup_step_adv now rnd) ([], 0) books))"

section \<open>The stored-data merge of the background script (src/unnamed/part_001)\<close>

text \<open>The object spread \<open>{...existing, ...book}\<close>: a property of \<open>book\<close> replaces that of
  \<open>existing\<close> whenever \<open>book\<close> has it.\<close>

definition over :: "'a option \<Rightarrow> 'a option \<Rightarrow> 'a option" where
  "over new old = (case new of Some v \<Rightarrow> Some v | None \<Rightarrow> old)"

definition spread :: "book \<Rightarrow> book \<Rightarrow> book" where
  "spread existing b =
     \<lparr>title = over (title b) (title existing),
      totalRoyalties = over (totalRoyalties b) (totalRoyalties existing),
      totalSales = over (totalSales b) (totalSales existing),
      kenpReads = over (kenpReads b) (kenpReads existing),
      kenpRoyalties = over (kenpRoyalties b) (kenpRoyalties existing),
      asin = over (asin b) (asin existing),
      marketplace = over (marketplace b) (marketplace existing),
      country = over (country b) (country existing),
      source = over (source b) (source existing),
      extractedAt = over (extractedAt b) (extractedAt existing),
      book_id = over (book_id b) (book_id existing),
      lastUpdated = over (lastUpdated b) (lastUpdated existing)\<rparr>"

text \<open>\<open>book.asin || book.id || book.title?.toLowerCase()\<close>.\<close>

definition storeKey :: "book \<Rightarrow> string option" where
  "storeKey b = orS (asin b) (orS (book_id b) (map_option toLowerCase (title b)))"

definition store_existing :: "bookMap \<Rightarrow> book \<Rightarrow> bookMap" where
  "store_existing m b =
     (case storeKey b of
        None \<Rightarrow> m
      | Some key \<Rightarrow> if key = [] then m else AList.update key b m)"

definition merged_stored :: "string \<Rightarrow> book \<Rightarrow> book \<Rightarrow> book" where
  "merged_stored now existing b =
     (spread existing b)
       \<lparr>totalRoyalties := Some (max (or0 (totalRoyalties existing)) (or0 (totalRoyalties b))),
        totalSales := Some (max (or0 (totalSales existing)) (or0 (totalSales b))),
        kenpReads := Some (max (or0 (kenpReads existing)) (or0 (kenpReads b))),
        lastUpdated := Some now\<rparr>"

definition store_new :: "string \<Rightarrow> bookMap \<Rightarrow> book \<Rightarrow> bookMap" where
  "store_new now m b =
     (case storeKey b of
        None \<Rightarrow> m
      | Some key \<Rightarrow>
          if key = [] then m
          else (case map_of m key of
                  Some existing \<Rightarrow> AList.update key (merged_stored now existing b) m
                | None \<Rightarrow> AList.update key (b\<lparr>lastUpdated := Some now\<rparr>) m))"

text \<open>\<open>mergeBookData(existing, newBooks)\<close> of the background script.\<close>

definition mergeBookData_bg :: "string \<Rightarrow> book list \<Rightarrow> book list \<Rightarrow> book list" where
  "mergeBookData_bg now existing newBooks =
     map snd (foldl (store_new now) (foldl store_existing [] existing) newBooks)"

section \<open>The reconciler (dashboard_server.js)\<close>

text \<open>
  A record of \<open>salesData\<close> and a record of \<open>campaigns\<close>, with the properties that
  \<open>processUserData\<close> reads or adds.
\<close>

record sale =
  s_date :: "string option"
  s_title :: "string option"
  s_asin :: "string option"
  s_marketplace :: "string option"
  s_unitsSold :: "rat option"
  s_royalty :: "rat option"
  s_kenpReads :: "rat option"
  s_syncTimestamp :: "string option"
  s_syncId :: "string option"

record campaign =
  campaignName :: "string option"
  spend :: "rat option"
  sales :: "rat option"
  acos :: "rat option"
  c_syncTimestamp :: "string option"
  c_syncId :: "string option"

text \<open>
  A stored sync. \<open>salesData\<close> and \<open>campaigns\<close> are \<open>None\<close> when \<open>sync.data\<close> or the
  list inside it is missing.
\<close>

record kdp_sync =
  salesData :: "sale list option"
  k_timestamp :: "string option"
  k_id :: "string option"

record ads_sync =
  campaigns :: "campaign list option"
  a_timestamp :: "string option"
  a_id :: "string option"

record combined =
  c_date :: "string option"
  c_title :: "string option"
  c_asin :: "string option"
  c_marketplace :: "string option"
  unitsSold :: rat
  royalty :: rat
  kenpRead :: rat
  adSpend :: rat
  adSales :: rat
  c_acos :: rat
  netProfit :: rat
  currency :: string
  syncTimestamp :: "string option"

record summary =
  totalRevenue :: rat
  totalSpend :: rat
  totalOrders :: rat
  totalKenp :: rat

record processed =
  combinedData :: "combined list"
  kdpData :: "sale list"
  adsData :: "campaign list"
  summary :: summary

definition processKdp :: "kdp_sync list \<Rightarrow> sale list" where
  "processKdp syncs =
     concat (map (\<lambda>sync. case salesData sync of
                            None \<Rightarrow> []
                          | Some xs \<Rightarrow>
                              map (\<lambda>s. s\<lparr>s_syncTimestamp := k_timestamp sync,
                                          s_syncId := k_id sync\<rparr>) xs) syncs)"

definition processAds :: "ads_sync list \<Rightarrow> campaign list" where
  "processAds syncs =
     concat (map (\<lambda>sync. case campaigns sync of
                            None \<Rightarrow> []
                          | Some xs \<Rightarrow>
                              map (\<lambda>c. c\<lparr>c_syncTimestamp := a_timestamp sync,
                                          c_syncId := a_id sync\<rparr>) xs) syncs)"

text \<open>The predicate of \<open>processedAds.filter\<close> for the publishing record \<open>kdp\<close>.\<close>

definition ad_matches :: "sale \<Rightarrow> campaign \<Rightarrow> bool" where
  "ad_matches kdp ad =
     (case campaignName ad of
        None \<Rightarrow> False
      | Some cn \<Rightarrow>
          (case s_title kdp of
             None \<Rightarrow> False
           | Some t \<Rightarrow>
               cn \<noteq> [] \<and> t \<noteq> [] \<and>
               (includes_str (toLowerCase cn) (toLowerCase (substring0 20 t)) \<or>
                includes_str (toLowerCase t) (toLowerCase (substring0 20 cn)))))"

text \<open>The value of \<open>xs.reduce((sum, x) => sum + (f(x) || 0), 0)\<close>.\<close>

definition reduce_sum :: "('a \<Rightarrow> rat option) \<Rightarrow> 'a list \<Rightarrow> rat" where
  "reduce_sum f xs = foldl (\<lambda>sum x. sum + or0 (f x)) 0 xs"

text \<open>\<open>x || 1\<close> on a number that may be \<open>undefined\<close>.\<close>

definition or1 :: "rat option \<Rightarrow> rat" where
  "or1 x = (case x of None \<Rightarrow> 1 | Some v \<Rightarrow> if v = 0 then 1 else v)"

definition combine :: "campaign list \<Rightarrow> sale \<Rightarrow> combined" where
  "combine processedAds kdp =
     (let matchingAds = filter (ad_matches kdp) processedAds;
          totalAdSpend = reduce_sum spend matchingAds;
          totalAdSales = reduce_sum sales matchingAds;
          avgAcos = (if length matchingAds > 0
                     then reduce_sum acos matchingAds / of_nat (length matchingAds) else 0)
      in \<lparr>c_date = s_date kdp,
          c_title = s_title kdp,
          c_asin = s_asin kdp,
          c_marketplace = s_marketplace kdp,
          unitsSold = or1 (s_unitsSold kdp),
          royalty = or0 (s_royalty kdp),
          kenpRead = or0 (s_kenpReads kdp),
          adSpend = totalAdSpend,
          adSales = totalAdSales,
          c_acos = avgAcos,
          netProfit = or0 (s_royalty kdp) - totalAdSpend,
          currency = ''USD'',
          syncTimestamp = s_syncTimestamp kdp\<rparr>)"

definition processUserData :: "kdp_sync list \<Rightarrow> ads_sync list \<Rightarrow> processed" where
  "processUserData kdps adss =
     (let processedKdp = processKdp kdps;
          processedAds = processAds adss;
          cd = map (combine processedAds) processedKdp
      in \<lparr>combinedData = cd,
          kdpData = processedKdp,
          adsData = processedAds,
          summary =
            \<lparr>totalRevenue = foldl (\<lambda>sum item. sum + royalty item) 0 cd,
             totalSpend = foldl (\<lambda>sum item. sum + adSpend item) 0 cd,
             totalOrders = foldl (\<lambda>sum item. sum + unitsSold item) 0 cd,
             totalKenp = foldl (\<lambda>sum item. sum + kenpRead item) 0 cd\<rparr>\<rparr>)"

text \<open>
  The matching rule in the words of the specification: the lower-cased first 20
  characters of one title is a substring of the other's lower-cased title.
\<close>

definition spec_matches :: "string \<Rightarrow> string \<Rightarrow> bool" where
  "spec_matches bookTitle name =
     (sublist (toLowerCase (take 20 bookTitle)) (toLowerCase name) \<or>
      sublist (toLowerCase (take 20 name)) (toLowerCase bookTitle))"

section \<open>The minimum-signal condition, in the words of the specification\<close>

text \<open>A non-empty title, and at least one of earnings, units sold and read count above zero.\<close>

definition min_signal :: "book \<Rightarrow> bool" where
  "min_signal b =
     ((case title b of None \<Rightarrow> False | Some t \<Rightarrow> length t > 0) \<and>
      (gt0 (totalRoyalties b) \<or> gt0 (totalSales b) \<or> gt0 (kenpReads b)))"

section \<open>Example inputs\<close>

text \<open>The object \<open>{title: t}\<close>, from which the examples build their candidates.\<close>

definition titled :: "string \<Rightarrow> book" where
  "titled t =
     \<lparr>title = Some t, totalRoyalties = None, totalSales = None, kenpReads = None,
      kenpRoyalties = None, asin = None, marketplace = None, country = None, source = None,
      extractedAt = None, book_id = None, lastUpdated = None\<rparr>"

text \<open>The publishing record and the campaign of the reconciler scenario.\<close>

definition empath_sale :: sale where
  "empath_sale =
     \<lparr>s_date = None, s_title = Some ''Empath and Psychic Abilities'', s_asin = None,
      s_marketplace = None, s_unitsSold = None, s_royalty = Some 10, s_kenpReads = None,
      s_syncTimestamp = None, s_syncId = None\<rparr>"

definition empath_campaign :: campaign where
  "empath_campaign =
     \<lparr>campaignName = Some ''Empath and Psychic Abilities - Campaign'', spend = Some 3,
      sales = Some 1, acos = Some (3 / 10), c_syncTimestamp = None, c_syncId = None\<rparr>"

text \<open>Three stored syncs holding three publishing records, none with a unit count.\<close>

definition unitless_syncs :: "kdp_sync list" where
  "unitless_syncs =
     [\<lparr>salesData = Some [empath_sale, empath_sale\<lparr>s_unitsSold := Some 0\<rparr>],
       k_timestamp = None, k_id = None\<rparr>,
      \<lparr>salesData = None, k_timestamp = None, k_id = None\<rparr>,
      \<lparr>salesData = Some [empath_sale\<lparr>s_title := Some ''Another Book''\<rparr>],
       k_timestamp = None, k_id = None\<rparr>]"

text \<open>A timestamp, and a random source that gives the same eight bytes at every draw.\<close>

definition now0 :: string where
  "now0 = ''2024-01-01T00:00:00.000Z''"

definition fixed_draws :: "nat \<Rightarrow> draw" where
  "fixed_draws i = CryptoBytes [0, 1, 2, 3, 4, 5, 6, 255]"

text \<open>Three candidates: two observations of one title, and a title with no metric.\<close>

definition sold_book :: book where
  "sold_book = (titled ''Empath and Psychic Abilities'')\<lparr>totalSales := Some 2\<rparr>"

definition signal_books :: "book list" where
  "signal_books =
     [sold_book, titled ''No Signal Here'',
      (titled ''Empath and Psychic Abilities'')\<lparr>totalRoyalties := Some 5\<rparr>]"

text \<open>Two candidates with one identifier and different titles.\<close>

definition same_asin_books :: "book list" where
  "same_asin_books =
     [(titled ''Empath and Psychic Abilities'')
        \<lparr>asin := Some ''B0BWFC3554'', totalSales := Some 2\<rparr>,
      (titled ''Empath and Psychic Abilities: Second Edition'')
        \<lparr>asin := Some ''B0BWFC3554'', totalRoyalties := Some 5\<rparr>]"

text \<open>Two candidates with different identifiers whose titles differ in case and padding.\<close>

definition recased_books :: "book list" where
  "recased_books =
     [(titled ''Empath and Psychic Abilities'')
        \<lparr>asin := Some ''B0BWFC3554'', totalSales := Some 2\<rparr>,
      (titled ''  EMPATH AND PSYCHIC ABILITIES '')
        \<lparr>asin := Some ''B0C1234567'', totalRoyalties := Some 5\<rparr>]"

text \<open>
  Two observations of one title: one with 1000 reads and no royalties for them yet, one
  with a sale and no reads.
\<close>

definition reads_book :: book where
  "reads_book =
     (titled ''Empath and Psychic Abilities'')\<lparr>kenpReads := Some 1000, kenpRoyalties := Some 0\<rparr>"

definition sales_book :: book where
  "sales_book =
     (titled ''Empath and Psychic Abilities'')
       \<lparr>totalSales := Some 1, kenpReads := Some 0, kenpRoyalties := Some 0\<rparr>"

text \<open>A stored book and a fresh observation of it from another marketplace.\<close>

definition stored_book :: book where
  "stored_book =
     (titled ''Empath and Psychic Abilities'')
       \<lparr>totalSales := Some 1, asin := Some ''B0BWFC3554'', country := Some ''US'',
        marketplace := Some ''amazon.com''\<rparr>"

definition fresh_book :: book where
  "fresh_book =
     (titled ''Empath and Psychic Abilities'')
       \<lparr>asin := Some ''B0BWFC3554'', country := Some ''DE'', marketplace := Some ''amazon.de''\<rparr>"

text \<open>A store in which object 0 holds itself under the key \<open>self\<close>.\<close>

definition loop_heap :: heap where
  "loop_heap = (\<lambda>a. JObject [(''self'', JRef 0)])"





section \<open>Auxiliary notions for the proofs\<close>

text \<open>The condition under which the KENP branch of the row extractor reads \<open>kempMatch\<close>.\<close>

definition kenp_cell :: "string \<Rightarrow> bool" where
  "kenp_cell cellText =
     ((includes_str (trim cellText) ''KENP'' \<or>
       (3 \<le> length (trim cellText) \<and> only_digits (trim cellText) \<and>
        parseInt_digits (trim cellText) > 100)) \<and>
      first_digits (trim cellText) \<noteq> None)"

text \<open>
  The value a map entry holds for a numeric field merged by maximum: \<open>acc\<close> is the value
  before a run, if there is an entry, and \<open>G\<close> the values of the candidates folded into it.
\<close>

definition max_into :: "rat option \<Rightarrow> rat set \<Rightarrow> rat option" where
  "max_into acc G =
     (case acc of
        None \<Rightarrow> if G = {} then None else Some (Max G)
      | Some x \<Rightarrow> Some (Max (insert x G)))"


section \<open>Properties of the string functions\<close>

lemma startsWith_prefix: "startsWith t p = prefix p t"
  by (induction t p rule: startsWith.induct) auto

lemma includes_sublist: "includes_str t p = sublist p t"
proof (induction t)
  case Nil
  then show ?case by simp
next
  case (Cons c cs)
  then show ?case
    by (cases p) (auto simp: startsWith_prefix sublist_Cons_right)
qed

lemma letter_not_digit: "is_letter c \<Longrightarrow> \<not> is_digit c"
  by (auto simp: is_letter_def is_lower_def is_upper_def is_digit_def
      lower_letters_def upper_letters_def digits_def)

lemmas char_defs = is_letter_def is_lower_def is_upper_def is_digit_def is_space_def
  lower_letters_def upper_letters_def digits_def valid_title_char_def
  lower_char_def upper_char_def toLowerCase_def toUpperCase_def only_digits_def

section \<open>The title classifier\<close>

lemma letters_not_only_digits:
  assumes "\<exists>c \<in> set t. is_letter c"
  shows "\<not> only_digits t"
  using assms letter_not_digit by (auto simp: only_digits_def list_all_iff)

lemma isLikelyBookTitle_iff:
  "isLikelyBookTitle t \<longleftrightarrow>
     3 \<le> length t \<and> length t \<le> 200 \<and>
     (\<forall>k \<in> set uiKeywords. \<not> sublist k (toLowerCase t)) \<and>
     (\<exists>c \<in> set t. is_letter c) \<and>
     (t \<noteq> toUpperCase t \<or> length t < 20) \<and>
     (\<forall>c \<in> set t. valid_title_char c)"
proof -
  have ns: "\<not> list_all (\<lambda>c. \<not> (is_letter c \<or> is_digit c \<or> is_space c)) t"
    if "\<exists>c \<in> set t. is_letter c"
    using that by (auto simp: list_all_iff)
  show ?thesis
    unfolding isLikelyBookTitle_def Let_def list_ex_iff includes_sublist
    using letters_not_only_digits[of t] ns by (auto simp: list_all_iff)
qed

lemma isLikelyBookTitle_adv_iff:
  "isLikelyBookTitle_adv t \<longleftrightarrow>
     3 \<le> length t \<and> length t \<le> 300 \<and>
     toLowerCase t \<notin> set uiKeywords_adv \<and>
     (\<exists>c \<in> set t. is_letter c) \<and>
     (\<forall>c \<in> set t. valid_title_char c)"
  unfolding isLikelyBookTitle_adv_def Let_def list_ex_iff
  using letters_not_only_digits[of t] by (auto simp: list_all_iff)

lemma long_a_no_keyword:
  "\<not> list_ex (includes_str (toLowerCase (replicate 250 (CHR ''a'')))) uiKeywords"
proof -
  have low: "toLowerCase (replicate 250 (CHR ''a'')) = replicate 250 (CHR ''a'')"
    by (simp add: toLowerCase_def lower_char_def upper_letters_def lower_letters_def)
  have "\<forall>k \<in> set uiKeywords. \<not> set k \<subseteq> {CHR ''a''}"
    by (simp add: uiKeywords_def)
  moreover have "set k \<subseteq> {CHR ''a''}" if "sublist k (replicate 250 (CHR ''a''))" for k
    using set_mono_sublist[OF that] by simp
  ultimately show ?thesis
    unfolding low list_ex_iff includes_sublist by blast
qed

text \<open>
  Claim C8, as amended. The two classifiers differ. \<open>isLikelyBookTitle\<close> of
  kdp-extension/content.js accepts a text exactly when its length lies in [3,200], its
  lower-cased form contains no blocklist keyword as a substring, it has a letter, it is
  not all-uppercase unless shorter than 20 characters, and every character is in the
  allowed set. \<open>isLikelyBookTitle\<close> of the advanced content script accepts a text exactly
  when its length lies in [3,300], its lower-cased form is not equal to one of its
  fourteen blocklist keywords, it has a letter, and every character is in the allowed
  set; it has no test on upper case.
\<close>

theorem isLikelyBookTitle_accepts:
  "(isLikelyBookTitle t \<longleftrightarrow>
      3 \<le> length t \<and> length t \<le> 200 \<and>
      (\<forall>k \<in> set uiKeywords. \<not> sublist k (toLowerCase t)) \<and>
      (\<exists>c \<in> set t. is_letter c) \<and>
      (t \<noteq> toUpperCase t \<or> length t < 20) \<and>
      (\<forall>c \<in> set t. valid_title_char c))
   \<and>
   (isLikelyBookTitle_adv t \<longleftrightarrow>
      3 \<le> length t \<and> length t \<le> 300 \<and>
      toLowerCase t \<notin> set uiKeywords_adv \<and>
      (\<exists>c \<in> set t. is_letter c) \<and>
      (\<forall>c \<in> set t. valid_title_char c))"
  using isLikelyBookTitle_iff[of t] isLikelyBookTitle_adv_iff[of t] by (rule conjI)

theorem isLikelyBookTitle_accepts_witness:
  "isLikelyBookTitle ''Empath and Psychic Abilities'' \<and>
   isLikelyBookTitle_adv ''Empath and Psychic Abilities'' \<and>
   3 \<le> length ''Empath and Psychic Abilities'' \<and>
   length ''Empath and Psychic Abilities'' \<le> 200 \<and>
   \<not> sublist ''report'' (toLowerCase ''Empath and Psychic Abilities'') \<and>
   toLowerCase ''Empath and Psychic Abilities'' \<notin> set uiKeywords_adv"
proof -
  have a: "isLikelyBookTitle ''Empath and Psychic Abilities''"
    by (simp add: isLikelyBookTitle_def uiKeywords_def char_defs)
  have b: "isLikelyBookTitle_adv ''Empath and Psychic Abilities''"
    by (simp add: isLikelyBookTitle_adv_def uiKeywords_adv_def char_defs)
  have k: "''report'' \<in> set uiKeywords"
    by (simp add: uiKeywords_def)
  from a b k isLikelyBookTitle_accepts[of "''Empath and Psychic Abilities''"]
  show ?thesis by blast
qed

text \<open>
  Claim C8 as stated fails on both classifiers. The advanced one accepts a text of 32
  characters that is all upper case. The one of kdp-extension/content.js rejects a text
  of 250 lower-case letters, which is alphabetic, has a length between 3 and 300, contains
  no blocklist keyword, is not all upper case and has allowed characters only.
\<close>

theorem isLikelyBookTitle_claim_counterexample:
  "isLikelyBookTitle_adv ''THE COMPLETE GUIDE TO EVERYTHING'' \<and>
   ''THE COMPLETE GUIDE TO EVERYTHING'' = toUpperCase ''THE COMPLETE GUIDE TO EVERYTHING'' \<and>
   \<not> length ''THE COMPLETE GUIDE TO EVERYTHING'' < 20 \<and>
   length (replicate 250 (CHR ''a'')) = 250 \<and>
   list_all is_letter (replicate 250 (CHR ''a'')) \<and>
   list_all valid_title_char (replicate 250 (CHR ''a'')) \<and>
   replicate 250 (CHR ''a'') \<noteq> toUpperCase (replicate 250 (CHR ''a'')) \<and>
   \<not> list_ex (includes_str (toLowerCase (replicate 250 (CHR ''a'')))) uiKeywords \<and>
   \<not> isLikelyBookTitle (replicate 250 (CHR ''a''))"
proof -
  have a: "isLikelyBookTitle_adv ''THE COMPLETE GUIDE TO EVERYTHING''"
    by (simp add: isLikelyBookTitle_adv_def uiKeywords_adv_def char_defs)
  have b: "''THE COMPLETE GUIDE TO EVERYTHING'' = toUpperCase ''THE COMPLETE GUIDE TO EVERYTHING''"
    by (simp add: char_defs)
  have c: "list_all is_letter (replicate 250 (CHR ''a''))"
    by (simp add: list_all_iff is_letter_def is_lower_def lower_letters_def)
  have d: "list_all valid_title_char (replicate 250 (CHR ''a''))"
    by (simp add: list_all_iff valid_title_char_def is_letter_def is_lower_def lower_letters_def)
  have e: "replicate 250 (CHR ''a'') \<noteq> toUpperCase (replicate 250 (CHR ''a''))"
    by (simp add: toUpperCase_def upper_char_def upper_letters_def lower_letters_def)
  have f: "\<not> isLikelyBookTitle (replicate 250 (CHR ''a''))"
    by (simp add: isLikelyBookTitle_def)
  show ?thesis using a b c d e f long_a_no_keyword by simp
qed

section \<open>The table row extractor\<close>

lemma row_cell_raises_iff: "(\<exists>e. row_cell v cellText = Inl e) \<longleftrightarrow> kenp_cell cellText"
  by (simp add: row_cell_def kenp_cell_def Let_def)

lemma row_cells_raises_iff: "(\<exists>e. row_cells v cells = Inl e) \<longleftrightarrow> list_ex kenp_cell cells"
proof (induction cells arbitrary: v)
  case Nil
  then show ?case by simp
next
  case (Cons c cells)
  show ?case
  proof (cases "row_cell v c")
    case (Inl e)
    then show ?thesis using row_cell_raises_iff[of v c] by auto
  next
    case (Inr v')
    then show ?thesis using row_cell_raises_iff[of v c] Cons.IH[of v'] by auto
  qed
qed

text \<open>The extractor raises on exactly the rows that have such a cell.\<close>

lemma extractBookDataFromRow_raises_iff:
  "(\<exists>e. extractBookDataFromRow cells src now = Inl e) \<longleftrightarrow> list_ex kenp_cell cells"
  using row_cells_raises_iff[of row_init cells]
  by (auto simp: extractBookDataFromRow_def Let_def split: sum.splits)

text \<open>
  Claim C1 fails on the code. A row whose second cell is the standalone integer 250, or a
  text that contains KENP and a digit, makes \<open>extractBookDataFromRow\<close> raise a
  ReferenceError: the KENP branch reads \<open>kempMatch\<close> where \<open>kenpMatch\<close> was declared.
  The exception leaves \<open>extractFromTables\<close> as well, so the rows after it are lost.
\<close>

theorem extractBookDataFromRow_raises:
  "extractBookDataFromRow [''Empath and Psychic Abilities'', ''250'']
     ''table_0_row_1'' ''2024-01-01T00:00:00.000Z''
     = Inl (ReferenceError ''kempMatch is not defined'') \<and>
   extractBookDataFromRow [''Empath and Psychic Abilities'', ''KENP 1500'']
     ''table_0_row_1'' ''2024-01-01T00:00:00.000Z''
     = Inl (ReferenceError ''kempMatch is not defined'') \<and>
   extractFromTables
     [([''Empath and Psychic Abilities'', ''250''], ''table_0_row_1''),
      ([''Another Interesting Book'', ''$12.50''], ''table_0_row_2'')]
     ''2024-01-01T00:00:00.000Z''
     = Inl (ReferenceError ''kempMatch is not defined'')"
  by code_simp

section \<open>The reconciler\<close>

lemma foldl_plus_sum: "foldl (\<lambda>sum x. sum + f x) a xs = a + sum_list (map f xs)"
  for a :: rat
  by (induction xs arbitrary: a) (simp_all add: add.assoc)

lemma reduce_sum_sum_list: "reduce_sum f xs = sum_list (map (\<lambda>x. or0 (f x)) xs)"
  by (simp add: reduce_sum_def foldl_plus_sum)

lemma ad_matches_iff:
  "ad_matches kdp ad \<longleftrightarrow>
     (\<exists>cn t. campaignName ad = Some cn \<and> s_title kdp = Some t \<and> cn \<noteq> [] \<and> t \<noteq> [] \<and>
             spec_matches t cn)"
  by (auto simp: ad_matches_def spec_matches_def includes_sublist substring0_def
      split: option.splits)

lemma empath_matches: "ad_matches empath_sale empath_campaign"
  by (simp add: ad_matches_def empath_sale_def empath_campaign_def substring0_def char_defs)

text \<open>
  Claim C6, as amended. A campaign matches a publishing record exactly when both names
  are present and non-empty and the lower-cased first 20 characters of one is a substring
  of the other's lower-cased name. The combined record of a publishing record has
  \<open>adSpend\<close> the sum of the matched spends, \<open>adSales\<close> the sum of the matched sales,
  \<open>acos\<close> the mean of the matched acos values (0 when nothing matches) and \<open>netProfit\<close>
  the royalty minus \<open>adSpend\<close>; every publishing record yields one combined record.
\<close>

theorem reconciler_matches_and_aggregates:
  "(ad_matches kdp ad \<longleftrightarrow>
      (\<exists>cn t. campaignName ad = Some cn \<and> s_title kdp = Some t \<and> cn \<noteq> [] \<and> t \<noteq> [] \<and>
              spec_matches t cn)) \<and>
   adSpend (combine ads kdp) = sum_list (map (\<lambda>a. or0 (spend a)) (filter (ad_matches kdp) ads)) \<and>
   adSales (combine ads kdp) = sum_list (map (\<lambda>a. or0 (sales a)) (filter (ad_matches kdp) ads)) \<and>
   c_acos (combine ads kdp) =
     (if filter (ad_matches kdp) ads = [] then 0
      else sum_list (map (\<lambda>a. or0 (acos a)) (filter (ad_matches kdp) ads)) /
           of_nat (length (filter (ad_matches kdp) ads))) \<and>
   netProfit (combine ads kdp) = or0 (s_royalty kdp) - adSpend (combine ads kdp) \<and>
   combinedData (processUserData kdps adss) =
     map (combine (adsData (processUserData kdps adss))) (kdpData (processUserData kdps adss))"
  using ad_matches_iff[of kdp ad]
  by (simp add: combine_def processUserData_def Let_def reduce_sum_sum_list)

theorem reconciler_scenario_witness:
  "adSpend (combine [empath_campaign] empath_sale) = 3 \<and>
   adSales (combine [empath_campaign] empath_sale) = 1 \<and>
   c_acos (combine [empath_campaign] empath_sale) = 3 / 10 \<and>
   netProfit (combine [empath_campaign] empath_sale) = 7"
  using reconciler_matches_and_aggregates[of empath_sale empath_campaign "[empath_campaign]" "[]" "[]"]
    empath_matches
  by (simp add: or0_def empath_campaign_def empath_sale_def)

text \<open>
  Claim C6 as stated fails where a name is empty. The empty title's first 20 characters
  are a substring of every campaign name, so the stated rule matches; the code's guard
  \<open>ad.campaignName && kdp.title\<close> rejects the pair, and no spend is attributed.
\<close>

theorem reconciler_empty_title_counterexample:
  "spec_matches [] ''Launch Campaign'' \<and>
   \<not> ad_matches (empath_sale\<lparr>s_title := Some []\<rparr>)
        (empath_campaign\<lparr>campaignName := Some ''Launch Campaign''\<rparr>) \<and>
   adSpend (combine [empath_campaign\<lparr>campaignName := Some ''Launch Campaign''\<rparr>]
              (empath_sale\<lparr>s_title := Some []\<rparr>)) = 0"
  by (simp add: spec_matches_def toLowerCase_def ad_matches_def combine_def reduce_sum_def)

lemma processKdp_units:
  assumes "s \<in> set (processKdp kdps)"
  shows "\<exists>sync xs s'. sync \<in> set kdps \<and> salesData sync = Some xs \<and> s' \<in> set xs \<and>
           s_unitsSold s = s_unitsSold s'"
  using assms by (auto simp: processKdp_def split: option.splits) (metis sale.select_convs)

lemma sum_list_ones:
  assumes "\<forall>x \<in> set xs. f x = (1::rat)"
  shows "sum_list (map f xs) = of_nat (length xs)"
  using assms by (induction xs) simp_all

text \<open>
  Claim C10. In the combined record of a publishing record whose unit count is missing or
  zero, \<open>unitsSold\<close> is 1. \<open>totalOrders\<close> is the sum of \<open>unitsSold\<close> over the combined
  records, of which there is one for each publishing record. So when no publishing record
  of the stored syncs has a unit count, every combined record has \<open>unitsSold = 1\<close> and
  \<open>totalOrders\<close> is the number of publishing records.
\<close>

theorem unitsSold_defaults_to_one:
  "(s_unitsSold kdp = None \<or> s_unitsSold kdp = Some 0 \<longrightarrow> unitsSold (combine ads kdp) = 1) \<and>
   totalOrders (summary (processUserData kdps adss)) =
     sum_list (map unitsSold (combinedData (processUserData kdps adss))) \<and>
   length (combinedData (processUserData kdps adss)) =
     length (kdpData (processUserData kdps adss)) \<and>
   ((\<forall>sync \<in> set kdps. \<forall>xs. salesData sync = Some xs \<longrightarrow>
        (\<forall>s \<in> set xs. s_unitsSold s = None \<or> s_unitsSold s = Some 0)) \<longrightarrow>
    list_all (\<lambda>c. unitsSold c = 1) (combinedData (processUserData kdps adss)) \<and>
    totalOrders (summary (processUserData kdps adss)) =
      of_nat (length (kdpData (processUserData kdps adss))))"
proof -
  have one: "unitsSold (combine ads' s) = 1"
    if "s_unitsSold s = None \<or> s_unitsSold s = Some 0" for s ads'
    using that by (auto simp: combine_def Let_def or1_def)
  have tot: "totalOrders (summary (processUserData kdps adss)) =
     sum_list (map unitsSold (combinedData (processUserData kdps adss)))"
    by (simp add: processUserData_def Let_def foldl_plus_sum)
  have len: "length (combinedData (processUserData kdps adss)) =
     length (kdpData (processUserData kdps adss))"
    by (simp add: processUserData_def Let_def)
  have all: "list_all (\<lambda>c. unitsSold c = 1) (combinedData (processUserData kdps adss)) \<and>
    totalOrders (summary (processUserData kdps adss)) =
      of_nat (length (kdpData (processUserData kdps adss)))"
    if h: "\<forall>sync \<in> set kdps. \<forall>xs. salesData sync = Some xs \<longrightarrow>
        (\<forall>s \<in> set xs. s_unitsSold s = None \<or> s_unitsSold s = Some 0)"
  proof -
    have u: "s_unitsSold s = None \<or> s_unitsSold s = Some 0" if "s \<in> set (processKdp kdps)" for s
      using processKdp_units[OF that] h by metis
    have "sum_list (map (\<lambda>s. unitsSold (combine ads' s)) (processKdp kdps)) =
            of_nat (length (processKdp kdps))" for ads'
      using one u by (intro sum_list_ones) simp
    then show ?thesis
      using one u by (simp add: processUserData_def Let_def foldl_plus_sum list_all_iff comp_def)
  qed
  show ?thesis using one[of kdp ads] tot len all by blast
qed

theorem unitsSold_defaults_to_one_witness:
  "unitsSold (combine [] empath_sale) = 1 \<and>
   length (kdpData (processUserData unitless_syncs [])) = 3 \<and>
   totalOrders (summary (processUserData unitless_syncs [])) = 3"
proof -
  have h: "\<forall>sync \<in> set unitless_syncs. \<forall>xs. salesData sync = Some xs \<longrightarrow>
        (\<forall>s \<in> set xs. s_unitsSold s = None \<or> s_unitsSold s = Some 0)"
    by (simp add: unitless_syncs_def empath_sale_def)
  have u: "s_unitsSold empath_sale = None"
    by (simp add: empath_sale_def)
  have len: "length (kdpData (processUserData unitless_syncs [])) = 3"
    by (simp add: processUserData_def processKdp_def Let_def unitless_syncs_def)
  from unitsSold_defaults_to_one[of empath_sale "[]" unitless_syncs "[]"] h u len
  show ?thesis by simp
qed

section \<open>The minimum-signal invariant\<close>

lemma update_entries:
  assumes "(k', v') \<in> set (AList.update k v al)"
  shows "(k', v') = (k, v) \<or> (k', v') \<in> set al"
  using assms by (induction al) (auto split: if_splits)

lemma gt0_max: "gt0 x \<Longrightarrow> gt0 (Some (max (or0 x) y))"
  by (cases x) (auto simp: gt0_def or0_def max_def)

lemma valid_enhance: "isValidBookData b \<Longrightarrow> isValidBookData (enhanceBookData r b)"
  by (auto simp: isValidBookData_def enhanceBookData_def Let_def split: option.splits)

lemma valid_merge: "isValidBookData e \<Longrightarrow> isValidBookData (mergeBookData now e b)"
  using gt0_max[of "totalRoyalties e"] gt0_max[of "totalSales e"] gt0_max[of "kenpReads e"]
  by (auto simp: isValidBookData_def mergeBookData_def split: option.splits)

lemma valid_step:
  assumes "\<forall>(k, v) \<in> set (fst st). isValidBookData v"
  shows "\<forall>(k, v) \<in> set (fst (dedup_step_adv now rnd st b)). isValidBookData v"
proof (cases "isValidBookData b")
  case False
  then show ?thesis using assms by (simp add: dedup_step_adv_def)
next
  case True
  show ?thesis
  proof (cases "map_of (fst st) (dedupKey b)")
    case None
    then show ?thesis
      using assms True valid_enhance[OF True]
      by (auto simp: dedup_step_adv_def Let_def dest!: update_entries)
  next
    case (Some e)
    then have "isValidBookData e"
      using assms map_of_SomeD by fastforce
    then show ?thesis
      using assms True Some valid_merge
      by (auto simp: dedup_step_adv_def Let_def dest!: update_entries)
  qed
qed

lemma valid_fold:
  assumes "\<forall>(k, v) \<in> set (fst st). isValidBookData v"
  shows "\<forall>(k, v) \<in> set (fst (foldl (dedup_step_adv now rnd) st books)). isValidBookData v"
  using assms
proof (induction books arbitrary: st)
  case Nil
  then show ?case by simp
next
  case (Cons b books)
  show ?case using Cons.IH[OF valid_step[OF Cons.prems]] by simp
qed

lemma valid_min_signal: "isValidBookData b \<Longrightarrow> min_signal b"
  by (auto simp: isValidBookData_def min_signal_def split: option.splits)

lemma has_signal_min_signal: "has_signal b \<Longrightarrow> min_signal b"
  by (auto simp: has_signal_def min_signal_def split: option.splits)

text \<open>
  Claim C7. A candidate that \<open>isValidBookData\<close> accepts has a non-empty title and at
  least one of its royalties, sales and reads above zero, and so has every record in the
  output of \<open>processAndDeduplicateBooks\<close>, in the advanced content script and in
  kdp-extension/content.js alike.
\<close>

theorem accepted_records_have_signal:
  "(isValidBookData b \<longrightarrow> min_signal b) \<and>
   list_all min_signal (processAndDeduplicateBooks_adv now rnd books) \<and>
   list_all min_signal (processAndDeduplicateBooks now books)"
proof -
  have "\<forall>(k, v) \<in> set (fst (foldl (dedup_step_adv now rnd) ([], 0) books)). isValidBookData v"
    by (rule valid_fold) simp
  then have "list_all min_signal (processAndDeduplicateBooks_adv now rnd books)"
    using valid_min_signal by (auto simp: processAndDeduplicateBooks_adv_def list_all_iff)
  moreover have "list_all min_signal (processAndDeduplicateBooks now books)"
    using has_signal_min_signal by (auto simp: processAndDeduplicateBooks_def list_all_iff)
  ultimately show ?thesis using valid_min_signal by blast
qed

theorem accepted_records_have_signal_witness:
  "isValidBookData sold_book \<and> min_signal sold_book \<and>
   length (processAndDeduplicateBooks_adv now0 fixed_draws signal_books) = 1 \<and>
   list_all min_signal (processAndDeduplicateBooks_adv now0 fixed_draws signal_books) \<and>
   length (processAndDeduplicateBooks now0 signal_books) = 1 \<and>
   list_all min_signal (processAndDeduplicateBooks now0 signal_books)"
proof -
  have v: "isValidBookData sold_book"
    by code_simp
  have a: "length (processAndDeduplicateBooks_adv now0 fixed_draws signal_books) = 1"
    by code_simp
  have b: "length (processAndDeduplicateBooks now0 signal_books) = 1"
    by code_simp
  from accepted_records_have_signal[of sold_book now0 fixed_draws signal_books] v a b
  show ?thesis by blast
qed

section \<open>The order of the candidates\<close>

lemma max_into_step:
  assumes "finite G"
  shows "max_into (Some (case acc of None \<Rightarrow> v | Some x \<Rightarrow> max x v)) G = max_into acc (insert v G)"
proof (cases acc)
  case None
  then show ?thesis using assms by (simp add: max_into_def)
next
  case (Some x)
  have "Max (insert (max x v) G) = Max (insert x (insert v G))"
  proof (cases "G = {}")
    case True
    then show ?thesis by (simp add: max.commute)
  next
    case False
    then show ?thesis using assms by (simp add: max.assoc)
  qed
  then show ?thesis using Some by (simp add: max_into_def)
qed

lemma keyed_max_fold:
  assumes step: "\<And>s b. look (step s b) =
            (if P b then Some (case look s of None \<Rightarrow> v b | Some x \<Rightarrow> max x (v b)) else look s)"
  shows "look (foldl step s bs) = max_into (look s) (v ` {b \<in> set bs. P b})"
proof (induction bs arbitrary: s)
  case Nil
  then show ?case by (simp add: max_into_def split: option.splits)
next
  case (Cons b bs)
  have fin: "finite (v ` {c \<in> set bs. P c})" by simp
  show ?case
  proof (cases "P b")
    case True
    then have "{c \<in> set (b # bs). P c} = insert b {c \<in> set bs. P c}" by auto
    then show ?thesis
      using Cons.IH[of "step s b"] True max_into_step[OF fin] by (simp add: step)
  next
    case False
    then have "{c \<in> set (b # bs). P c} = {c \<in> set bs. P c}" by auto
    then show ?thesis
      using Cons.IH[of "step s b"] False by (simp add: step)
  qed
qed

lemma adv_step_field:
  assumes enh: "\<And>r b. f (enhanceBookData r b) = f b"
    and mrg: "\<And>now e b. f (mergeBookData now e b) = Some (max (or0 (f e)) (or0 (f b)))"
  shows "map_option (\<lambda>r. or0 (f r)) (map_of (fst (dedup_step_adv now rnd st b)) k) =
     (if isValidBookData b \<and> dedupKey b = k
      then Some (case map_option (\<lambda>r. or0 (f r)) (map_of (fst st) k) of
                   None \<Rightarrow> or0 (f b) | Some x \<Rightarrow> max x (or0 (f b)))
      else map_option (\<lambda>r. or0 (f r)) (map_of (fst st) k))"
  by (auto simp: dedup_step_adv_def Let_def update_conv' enh mrg or0_def split: option.splits)

lemma js_step_field:
  assumes new: "\<And>now b. f (new_entry now b) = Some (or0 (f b))"
    and mrg: "\<And>e b. f (merged_entry e b) = Some (max (or0 (f e)) (or0 (f b)))"
  shows "map_option (\<lambda>r. or0 (f r)) (map_of (dedup_step now m b) k) =
     (if truthy (title b) \<and> titleKey b = k
      then Some (case map_option (\<lambda>r. or0 (f r)) (map_of m k) of
                   None \<Rightarrow> or0 (f b) | Some x \<Rightarrow> max x (or0 (f b)))
      else map_option (\<lambda>r. or0 (f r)) (map_of m k))"
  by (auto simp: dedup_step_def Let_def update_conv' new mrg or0_def truthy_def titleKey_def
      split: option.splits)

lemma adv_field_max:
  assumes enh: "\<And>r b. f (enhanceBookData r b) = f b"
    and mrg: "\<And>now e b. f (mergeBookData now e b) = Some (max (or0 (f e)) (or0 (f b)))"
  shows "map_option (\<lambda>r. or0 (f r)) (map_of (fst (foldl (dedup_step_adv now rnd) ([], 0) books)) k) =
     max_into None ((\<lambda>b. or0 (f b)) ` {b \<in> set books. isValidBookData b \<and> dedupKey b = k})"
  using keyed_max_fold[where look = "\<lambda>st. map_option (\<lambda>r. or0 (f r)) (map_of (fst st) k)"
      and step = "dedup_step_adv now rnd" and P = "\<lambda>b. isValidBookData b \<and> dedupKey b = k"
      and v = "\<lambda>b. or0 (f b)" and s = "([], 0)" and bs = books,
      OF adv_step_field[OF enh mrg]]
  by simp

lemma js_field_max:
  assumes new: "\<And>now b. f (new_entry now b) = Some (or0 (f b))"
    and mrg: "\<And>e b. f (merged_entry e b) = Some (max (or0 (f e)) (or0 (f b)))"
  shows "map_option (\<lambda>r. or0 (f r)) (map_of (foldl (dedup_step now) [] books) k) =
     max_into None ((\<lambda>b. or0 (f b)) ` {b \<in> set books. truthy (title b) \<and> titleKey b = k})"
  using keyed_max_fold[where look = "\<lambda>m. map_option (\<lambda>r. or0 (f r)) (map_of m k)"
      and step = "dedup_step now" and P = "\<lambda>b. truthy (title b) \<and> titleKey b = k"
      and v = "\<lambda>b. or0 (f b)" and s = "[]" and bs = books,
      OF js_step_field[OF new mrg]]
  by simp

text \<open>
  In both merge engines the values that the map holds under a key for \<open>totalRoyalties\<close>,
  \<open>totalSales\<close> and \<open>kenpReads\<close> are the maxima over the candidates of that key: they are
  the same for two lists with the same elements, and so for a list and a permutation of it.
\<close>

lemma max_fields_independent_of_order:
  assumes "set books = set books'"
  shows "map_option (\<lambda>r. or0 (totalRoyalties r))
           (map_of (fst (foldl (dedup_step_adv now rnd) ([], 0) books)) k) =
         map_option (\<lambda>r. or0 (totalRoyalties r))
           (map_of (fst (foldl (dedup_step_adv now rnd) ([], 0) books')) k)"
    and "map_option (\<lambda>r. or0 (totalSales r))
           (map_of (fst (foldl (dedup_step_adv now rnd) ([], 0) books)) k) =
         map_option (\<lambda>r. or0 (totalSales r))
           (map_of (fst (foldl (dedup_step_adv now rnd) ([], 0) books')) k)"
    and "map_option (\<lambda>r. or0 (kenpReads r))
           (map_of (fst (foldl (dedup_step_adv now rnd) ([], 0) books)) k) =
         map_option (\<lambda>r. or0 (kenpReads r))
           (map_of (fst (foldl (dedup_step_adv now rnd) ([], 0) books')) k)"
    and "map_option (\<lambda>r. or0 (totalRoyalties r)) (map_of (foldl (dedup_step now) [] books) k) =
         map_option (\<lambda>r. or0 (totalRoyalties r)) (map_of (foldl (dedup_step now) [] books') k)"
    and "map_option (\<lambda>r. or0 (totalSales r)) (map_of (foldl (dedup_step now) [] books) k) =
         map_option (\<lambda>r. or0 (totalSales r)) (map_of (foldl (dedup_step now) [] books') k)"
    and "map_option (\<lambda>r. or0 (kenpReads r)) (map_of (foldl (dedup_step now) [] books) k) =
         map_option (\<lambda>r. or0 (kenpReads r)) (map_of (foldl (dedup_step now) [] books') k)"
  using assms
  by (simp_all add: adv_field_max js_field_max enhanceBookData_def Let_def mergeBookData_def
      new_entry_def merged_entry_def)

text \<open>
  Claim C4 fails on the code. The royalties derived from the reads (reads times 0.004)
  are computed for the candidate that creates a map entry and not for a candidate merged
  into it, so two observations of one title give \<open>kenpRoyalties\<close> 4 in one order and 0
  in the other, in both merge engines.
\<close>

theorem kenpRoyalties_depends_on_order:
  "map kenpRoyalties (processAndDeduplicateBooks now0 [reads_book, sales_book]) = [Some 4] \<and>
   map kenpRoyalties (processAndDeduplicateBooks now0 [sales_book, reads_book]) = [Some 0] \<and>
   map kenpRoyalties (processAndDeduplicateBooks_adv now0 fixed_draws [reads_book, sales_book]) =
     [Some 4] \<and>
   map kenpRoyalties (processAndDeduplicateBooks_adv now0 fixed_draws [sales_book, reads_book]) =
     [Some 0]"
  by code_simp

section \<open>The dedup key\<close>

lemma dedupKey_cases:
  "dedupKey b = (if truthy (asin b) then the (asin b) else titleKey b)"
  by (simp add: dedupKey_def truthy_def titleKey_def normTitle_def toLowerCase_def trim_def
      split: option.splits)

lemma enhance_keeps:
  "asin (enhanceBookData r b) = asin b" "title (enhanceBookData r b) = title b"
  by (simp_all add: enhanceBookData_def Let_def)

lemma dedupKey_enhance: "dedupKey (enhanceBookData r b) = dedupKey b"
  by (simp add: dedupKey_cases titleKey_def enhance_keeps)

lemma merge_keeps:
  "asin (mergeBookData now e b) = orS (asin e) (asin b)"
  "title (mergeBookData now e b) = title e"
  by (simp_all add: mergeBookData_def)

lemma dedupKey_merge:
  assumes "dedupKey e = dedupKey b"
  shows "dedupKey (mergeBookData now e b) = dedupKey b"
  using assms by (simp add: dedupKey_cases titleKey_def merge_keeps orS_def split: if_splits)

text \<open>The keys of a map are distinct and each is the key of the record stored under it.\<close>

lemma keyed_update:
  assumes "distinct (map fst m)" "\<forall>(k, v) \<in> set m. f v = k" "f v' = k'"
  shows "distinct (map fst (AList.update k' v' m)) \<and> (\<forall>(k, v) \<in> set (AList.update k' v' m). f v = k)"
  using assms by (auto simp: distinct_update dest!: update_entries)

lemma keyed_values:
  assumes "\<forall>(k, v) \<in> set m. f v = k"
  shows "map f (map snd m) = map fst m"
  using assms by (induction m) auto

lemma keyed_step:
  assumes "distinct (map fst (fst st))" "\<forall>(k, v) \<in> set (fst st). dedupKey v = k"
  shows "distinct (map fst (fst (dedup_step_adv now rnd st b))) \<and>
         (\<forall>(k, v) \<in> set (fst (dedup_step_adv now rnd st b)). dedupKey v = k)"
proof (cases "isValidBookData b")
  case False
  then show ?thesis using assms by (simp add: dedup_step_adv_def)
next
  case True
  show ?thesis
  proof (cases "map_of (fst st) (dedupKey b)")
    case None
    then show ?thesis
      using True keyed_update[OF assms, of "enhanceBookData (rnd (snd st)) b" "dedupKey b"]
      by (simp add: dedup_step_adv_def Let_def dedupKey_enhance)
  next
    case (Some e)
    then have "dedupKey e = dedupKey b"
      using assms(2) map_of_SomeD by fastforce
    then show ?thesis
      using True Some keyed_update[OF assms, of "mergeBookData now e b" "dedupKey b"]
      by (simp add: dedup_step_adv_def Let_def dedupKey_merge)
  qed
qed

lemma keys_step:
  "fst ` set (fst (dedup_step_adv now rnd st b)) =
     (if isValidBookData b then insert (dedupKey b) (fst ` set (fst st)) else fst ` set (fst st))"
  by (auto simp: dedup_step_adv_def Let_def dom_update split: option.splits)

lemma keyed_fold:
  assumes "distinct (map fst (fst st))" "\<forall>(k, v) \<in> set (fst st). dedupKey v = k"
  shows "distinct (map fst (fst (foldl (dedup_step_adv now rnd) st books))) \<and>
         (\<forall>(k, v) \<in> set (fst (foldl (dedup_step_adv now rnd) st books)). dedupKey v = k) \<and>
         fst ` set (fst (foldl (dedup_step_adv now rnd) st books)) =
           fst ` set (fst st) \<union> dedupKey ` {b \<in> set books. isValidBookData b}"
  using assms
proof (induction books arbitrary: st)
  case Nil
  then show ?case by simp
next
  case (Cons b books)
  have s: "distinct (map fst (fst (dedup_step_adv now rnd st b)))"
    "\<forall>(k, v) \<in> set (fst (dedup_step_adv now rnd st b)). dedupKey v = k"
    using keyed_step[OF Cons.prems] by auto
  from Cons.IH[OF s]
  show ?case by (auto simp: keys_step split: if_splits)
qed

lemma titled_step:
  assumes "distinct (map fst m)" "\<forall>(k, v) \<in> set m. titleKey v = k"
  shows "distinct (map fst (dedup_step now m b)) \<and>
         (\<forall>(k, v) \<in> set (dedup_step now m b). titleKey v = k)"
proof (cases "title b")
  case None
  then show ?thesis using assms by (simp add: dedup_step_def)
next
  case (Some t)
  show ?thesis
  proof (cases "t = []")
    case True
    then show ?thesis using assms Some by (simp add: dedup_step_def)
  next
    case False
    show ?thesis
    proof (cases "map_of m (normTitle t)")
      case None
      then show ?thesis
        using Some False keyed_update[OF assms, of "new_entry now b" "normTitle t"]
        by (simp add: dedup_step_def Let_def titleKey_def new_entry_def)
    next
      case (Some e)
      then have "titleKey e = normTitle t"
        using assms(2) map_of_SomeD by fastforce
      then show ?thesis
        using \<open>title b = Some t\<close> False Some
          keyed_update[OF assms, of "merged_entry e b" "normTitle t"]
        by (simp add: dedup_step_def Let_def titleKey_def merged_entry_def)
    qed
  qed
qed

lemma titled_fold:
  assumes "distinct (map fst m)" "\<forall>(k, v) \<in> set m. titleKey v = k"
  shows "distinct (map fst (foldl (dedup_step now) m books)) \<and>
         (\<forall>(k, v) \<in> set (foldl (dedup_step now) m books). titleKey v = k)"
  using assms
proof (induction books arbitrary: m)
  case Nil
  then show ?case by simp
next
  case (Cons b books)
  have s: "distinct (map fst (dedup_step now m b))"
    "\<forall>(k, v) \<in> set (dedup_step now m b). titleKey v = k"
    using titled_step[OF Cons.prems] by auto
  from Cons.IH[OF s] show ?case by simp
qed

lemma js_step_title:
  "map_option title (map_of (dedup_step now m b) k) =
     (case map_of m k of
        Some r \<Rightarrow> Some (title r)
      | None \<Rightarrow> if truthy (title b) \<and> titleKey b = k then Some (title b) else None)"
proof (cases "truthy (title b)")
  case False
  then show ?thesis
    by (cases "map_of m k") (auto simp: dedup_step_def truthy_def split: option.splits)
next
  case True
  then obtain t where t: "title b = Some t" "t \<noteq> []"
    by (auto simp: truthy_def split: option.splits)
  then have key: "titleKey b = normTitle t"
    by (simp add: titleKey_def)
  show ?thesis
  proof (cases "map_of m (normTitle t)")
    case None
    then have "dedup_step now m b = AList.update (normTitle t) (new_entry now b) m"
      using t by (simp add: dedup_step_def)
    then show ?thesis
      using None t key True by (cases "map_of m k") (auto simp: update_conv' new_entry_def)
  next
    case (Some e)
    then have "dedup_step now m b = AList.update (normTitle t) (merged_entry e b) m"
      using t by (simp add: dedup_step_def)
    then show ?thesis
      using Some t key True by (cases "map_of m k") (auto simp: update_conv' merged_entry_def)
  qed
qed

lemma js_fold_title:
  "map_option title (map_of (foldl (dedup_step now) m bs) k) =
     (case map_of m k of
        Some r \<Rightarrow> Some (title r)
      | None \<Rightarrow> map_option title (find (\<lambda>b. truthy (title b) \<and> titleKey b = k) bs))"
proof (induction bs arbitrary: m)
  case Nil
  then show ?case by (simp split: option.splits)
next
  case (Cons b bs)
  have step: "map_option title (map_of (dedup_step now m b) k) =
     (case map_of m k of
        Some r \<Rightarrow> Some (title r)
      | None \<Rightarrow> if truthy (title b) \<and> titleKey b = k then Some (title b) else None)"
    by (rule js_step_title)
  show ?case
  proof (cases "map_of m k")
    case (Some r)
    then obtain r' where "map_of (dedup_step now m b) k = Some r'" "title r' = title r"
      using step by (cases "map_of (dedup_step now m b) k") auto
    then show ?thesis using Cons.IH[of "dedup_step now m b"] Some by simp
  next
    case None
    show ?thesis
    proof (cases "truthy (title b) \<and> titleKey b = k")
      case True
      then obtain r' where "map_of (dedup_step now m b) k = Some r'" "title r' = title b"
        using step None by (cases "map_of (dedup_step now m b) k") auto
      then show ?thesis using Cons.IH[of "dedup_step now m b"] None True by simp
    next
      case False
      then have "map_of (dedup_step now m b) k = None"
        using step None by (cases "map_of (dedup_step now m b) k") auto
      then show ?thesis using Cons.IH[of "dedup_step now m b"] None False by auto
    qed
  qed
qed

lemma gt0_or0: "gt0 x \<longleftrightarrow> 0 < or0 x"
  by (simp add: gt0_def or0_def split: option.splits)

lemma max_into_pos:
  assumes "finite G"
  shows "(\<exists>x. max_into None G = Some x \<and> 0 < x) \<longleftrightarrow> (\<exists>v \<in> G. 0 < v)"
proof (cases "G = {}")
  case True
  then show ?thesis by (simp add: max_into_def)
next
  case False
  then show ?thesis using assms by (simp add: max_into_def Max_gr_iff)
qed

lemma js_entry_field_pos:
  assumes new: "\<And>now b. f (new_entry now b) = Some (or0 (f b))"
    and mrg: "\<And>e b. f (merged_entry e b) = Some (max (or0 (f e)) (or0 (f b)))"
    and r: "map_of (foldl (dedup_step now) [] books) k = Some r"
  shows "gt0 (f r) \<longleftrightarrow> (\<exists>b \<in> set books. truthy (title b) \<and> titleKey b = k \<and> gt0 (f b))"
proof -
  let ?G = "(\<lambda>b. or0 (f b)) ` {b \<in> set books. truthy (title b) \<and> titleKey b = k}"
  have "max_into None ?G = Some (or0 (f r))"
    using js_field_max[OF new mrg, of now books k] r by simp
  moreover have "finite ?G" by simp
  ultimately have "0 < or0 (f r) \<longleftrightarrow> (\<exists>v \<in> ?G. 0 < v)"
    using max_into_pos[of ?G] by simp
  then show ?thesis by (auto simp: gt0_or0)
qed

lemma find_filter: "find P xs = (case filter P xs of [] \<Rightarrow> None | x # _ \<Rightarrow> Some x)"
  by (induction xs) auto

lemma js_entry_signal:
  assumes r: "map_of (foldl (dedup_step now) [] books) k = Some r"
  shows "has_signal r \<longleftrightarrow> kept_title books k"
proof -
  have t: "Some (title r) = map_option title (find (\<lambda>b. truthy (title b) \<and> titleKey b = k) books)"
    using js_fold_title[of now "[]" books k] r by simp
  then obtain b0 rest where g: "title_group books k = b0 # rest" and tb: "title b0 = title r"
    by (auto simp: find_filter title_group_def split: list.splits)
  have f: "gt0 (totalRoyalties r) \<longleftrightarrow> (\<exists>b \<in> set (title_group books k). gt0 (totalRoyalties b))"
    "gt0 (totalSales r) \<longleftrightarrow> (\<exists>b \<in> set (title_group books k). gt0 (totalSales b))"
    "gt0 (kenpReads r) \<longleftrightarrow> (\<exists>b \<in> set (title_group books k). gt0 (kenpReads b))"
    using js_entry_field_pos[of totalRoyalties now books k r]
      js_entry_field_pos[of totalSales now books k r]
      js_entry_field_pos[of kenpReads now books k r] r
    by (auto simp: new_entry_def merged_entry_def title_group_def)
  have "(gt0 (totalRoyalties r) \<or> gt0 (totalSales r) \<or> gt0 (kenpReads r)) \<longleftrightarrow>
        list_ex signals (title_group books k)"
    unfolding f by (auto simp: list_ex_iff signals_def)
  then show ?thesis
    using g tb by (simp add: has_signal_def kept_title_def split: option.splits)
qed

lemma js_no_entry:
  assumes "map_of (foldl (dedup_step now) [] books) k = None"
  shows "\<not> kept_title books k"
proof -
  have "find (\<lambda>b. truthy (title b) \<and> titleKey b = k) books = None"
    using js_fold_title[of now "[]" books k] assms by simp
  then show ?thesis
    by (simp add: find_filter kept_title_def title_group_def split: list.splits)
qed

lemma js_output_keys:
  "titleKey ` set (processAndDeduplicateBooks now books) = {k. kept_title books k}"
proof -
  let ?m = "foldl (dedup_step now) [] books"
  have inv: "distinct (map fst ?m) \<and> (\<forall>(k, v) \<in> set ?m. titleKey v = k)"
    by (rule titled_fold) simp_all
  have out: "set (processAndDeduplicateBooks now books) = {r \<in> snd ` set ?m. has_signal r}"
    by (auto simp: processAndDeduplicateBooks_def)
  show ?thesis
  proof (intro set_eqI iffI)
    fix k assume "k \<in> titleKey ` set (processAndDeduplicateBooks now books)"
    then obtain k' r where r: "(k', r) \<in> set ?m" "has_signal r" "k = titleKey r"
      unfolding out by auto
    then have "k' = k" using inv by auto
    then have "map_of ?m k = Some r"
      using r(1) inv by simp
    then show "k \<in> {k. kept_title books k}"
      using js_entry_signal r(2) by simp
  next
    fix k assume k: "k \<in> {k. kept_title books k}"
    then obtain r where r: "map_of ?m k = Some r"
      using js_no_entry[of now books k] by (cases "map_of ?m k") auto
    then have "has_signal r" using js_entry_signal k by simp
    moreover have "(k, r) \<in> set ?m" using r by (rule map_of_SomeD)
    moreover have "titleKey r = k" using \<open>(k, r) \<in> set ?m\<close> inv by auto
    ultimately show "k \<in> titleKey ` set (processAndDeduplicateBooks now books)"
      unfolding out by force
  qed
qed

lemma count_distinct_key:
  assumes "distinct (map f xs)"
  shows "length (filter (\<lambda>x. f x = k) xs) = (if k \<in> f ` set xs then 1 else 0)"
  using assms
proof (induction xs)
  case Nil
  then show ?case by simp
next
  case (Cons x xs)
  show ?case
  proof (cases "f x = k")
    case True
    then have "k \<notin> f ` set xs" using Cons.prems by auto
    then have "filter (\<lambda>x. f x = k) xs = []" by (auto simp: filter_empty_conv)
    then show ?thesis using True by simp
  next
    case False
    then show ?thesis using Cons by auto
  qed
qed

text \<open>
  Claim C3, as amended. In the advanced content script the dedup key of a candidate is
  its identifier when that is non-empty and its lower-cased trimmed title otherwise; no
  two records of the output of \<open>processAndDeduplicateBooks\<close> have the same key, and the
  keys of the output are the keys of the candidates that \<open>isValidBookData\<close> accepts, so
  the output holds exactly one record for each key of an accepted candidate: accepted
  candidates with one key collapse into one record. In kdp-extension/content.js the key
  is the lower-cased trimmed title alone, whatever the identifiers. The output holds
  exactly one record for each normalized title \<open>k\<close> of which \<open>kept_title\<close> holds, that is,
  the first candidate with that normalized title has a title longer than two characters
  and some candidate with it has a positive metric, and no record for any other \<open>k\<close>: so
  candidates with equal normalized titles collapse into one record, and candidates with
  different normalized titles stay separate.
\<close>

theorem dedup_keys_collapse:
  "dedupKey b =
     (if truthy (asin b) then the (asin b)
      else case title b of Some t \<Rightarrow> trim (toLowerCase t) | None \<Rightarrow> []) \<and>
   distinct (map dedupKey (processAndDeduplicateBooks_adv now rnd books)) \<and>
   dedupKey ` set (processAndDeduplicateBooks_adv now rnd books) =
     dedupKey ` {b \<in> set books. isValidBookData b} \<and>
   length (filter (\<lambda>r. dedupKey r = k) (processAndDeduplicateBooks_adv now rnd books)) =
     (if k \<in> dedupKey ` {b \<in> set books. isValidBookData b} then 1 else 0) \<and>
   distinct (map titleKey (processAndDeduplicateBooks now books)) \<and>
   titleKey ` set (processAndDeduplicateBooks now books) = {k. kept_title books k} \<and>
   length (filter (\<lambda>r. titleKey r = k) (processAndDeduplicateBooks now books)) =
     (if kept_title books k then 1 else 0)"
proof -
  let ?m = "fst (foldl (dedup_step_adv now rnd) ([], 0) books)"
  have f: "distinct (map fst ?m) \<and> (\<forall>(k, v) \<in> set ?m. dedupKey v = k) \<and>
           fst ` set ?m = fst ` set [] \<union> dedupKey ` {b \<in> set books. isValidBookData b}"
    using keyed_fold[of "([], 0)" now rnd books] by simp
  then have v: "map dedupKey (map snd ?m) = map fst ?m"
    using keyed_values by blast
  have a: "distinct (map dedupKey (processAndDeduplicateBooks_adv now rnd books))"
    using f v by (simp add: processAndDeduplicateBooks_adv_def del: map_map)
  have "set (map dedupKey (map snd ?m)) = set (map fst ?m)"
    using v by simp
  then have b: "dedupKey ` set (processAndDeduplicateBooks_adv now rnd books) =
     dedupKey ` {b \<in> set books. isValidBookData b}"
    using f by (simp add: processAndDeduplicateBooks_adv_def image_image del: map_map)
  have b': "length (filter (\<lambda>r. dedupKey r = k) (processAndDeduplicateBooks_adv now rnd books)) =
     (if k \<in> dedupKey ` {b \<in> set books. isValidBookData b} then 1 else 0)"
    using count_distinct_key[OF a, of k] unfolding b .
  let ?n = "foldl (dedup_step now) [] books"
  have t: "distinct (map fst ?n) \<and> (\<forall>(k, v) \<in> set ?n. titleKey v = k)"
    by (rule titled_fold) simp_all
  then have "distinct (map titleKey (map snd ?n))"
    using keyed_values[of ?n titleKey] by (simp del: map_map)
  then have c: "distinct (map titleKey (processAndDeduplicateBooks now books))"
    by (simp add: processAndDeduplicateBooks_def distinct_map_filter)
  have c': "titleKey ` set (processAndDeduplicateBooks now books) = {k. kept_title books k}"
    by (rule js_output_keys)
  have c'': "length (filter (\<lambda>r. titleKey r = k) (processAndDeduplicateBooks now books)) =
     (if kept_title books k then 1 else 0)"
    using count_distinct_key[OF c, of k] unfolding c' by simp
  have d: "dedupKey b =
     (if truthy (asin b) then the (asin b)
      else case title b of Some t \<Rightarrow> trim (toLowerCase t) | None \<Rightarrow> [])"
    by (simp add: dedupKey_cases titleKey_def normTitle_def split: option.splits)
  show ?thesis using a b b' c c' c'' d by blast
qed

theorem dedup_keys_collapse_witness:
  "map dedupKey (processAndDeduplicateBooks_adv now0 fixed_draws same_asin_books) = [''B0BWFC3554''] \<and>
   distinct (map dedupKey (processAndDeduplicateBooks_adv now0 fixed_draws same_asin_books)) \<and>
   length (processAndDeduplicateBooks_adv now0 fixed_draws signal_books) = 1 \<and>
   distinct (map titleKey (processAndDeduplicateBooks now0 signal_books)) \<and>
   map titleKey (processAndDeduplicateBooks now0 signal_books) = [''empath and psychic abilities''] \<and>
   kept_title signal_books ''empath and psychic abilities'' \<and>
   \<not> kept_title signal_books ''no signal here'' \<and>
   map titleKey (processAndDeduplicateBooks now0 same_asin_books) =
     [''empath and psychic abilities'', ''empath and psychic abilities: second edition''] \<and>
   map asin (processAndDeduplicateBooks now0 recased_books) = [Some ''B0BWFC3554''] \<and>
   length (filter (\<lambda>r. titleKey r = ''empath and psychic abilities'')
             (processAndDeduplicateBooks now0 recased_books)) = 1"
proof -
  have a: "map dedupKey (processAndDeduplicateBooks_adv now0 fixed_draws same_asin_books) =
             [''B0BWFC3554'']"
    by code_simp
  have b: "length (processAndDeduplicateBooks_adv now0 fixed_draws signal_books) = 1"
    by code_simp
  have c: "map titleKey (processAndDeduplicateBooks now0 signal_books) =
             [''empath and psychic abilities'']"
    by code_simp
  have d: "map titleKey (processAndDeduplicateBooks now0 same_asin_books) =
     [''empath and psychic abilities'', ''empath and psychic abilities: second edition'']"
    by code_simp
  have e: "map asin (processAndDeduplicateBooks now0 recased_books) = [Some ''B0BWFC3554'']"
    by code_simp
  have k1: "kept_title signal_books ''empath and psychic abilities''"
    by code_simp
  have k2: "\<not> kept_title signal_books ''no signal here''"
    by code_simp
  have k3: "kept_title recased_books ''empath and psychic abilities''"
    by code_simp
  from dedup_keys_collapse[of _ now0 fixed_draws same_asin_books]
    dedup_keys_collapse[of _ now0 fixed_draws signal_books]
    dedup_keys_collapse[of _ now0 fixed_draws recased_books "''empath and psychic abilities''"]
    a b c d e k1 k2 k3
  show ?thesis by simp
qed

text \<open>
  Claim C3 as stated fails in kdp-extension/content.js: two candidates with the
  identifier B0BWFC3554 and different titles stay two records of the output.
\<close>

theorem same_identifier_counterexample:
  "map asin (processAndDeduplicateBooks now0 same_asin_books) =
     [Some ''B0BWFC3554'', Some ''B0BWFC3554''] \<and>
   map title (processAndDeduplicateBooks now0 same_asin_books) =
     [Some ''Empath and Psychic Abilities'',
      Some ''Empath and Psychic Abilities: Second Edition'']"
  by code_simp

section \<open>String fields in a merge\<close>

text \<open>
  Claim C5, as amended. When the merge engine of kdp-extension/content.js folds a
  candidate into the record stored under its key, each of \<open>asin\<close>, \<open>marketplace\<close> and
  \<open>country\<close> of the result is the stored value when that is non-empty, else the
  candidate's when that is non-empty, else the default. When the background script merges
  a new book into the stored book with its key, each of \<open>asin\<close>, \<open>marketplace\<close> and
  \<open>country\<close> of the result is the new book's value whenever the new book has the
  property, and the stored value otherwise.
\<close>

theorem string_fields_in_merges:
  "asin (merged_entry e b) =
     (if truthy (asin e) then asin e else if truthy (asin b) then asin b else Some []) \<and>
   marketplace (merged_entry e b) =
     (if truthy (marketplace e) then marketplace e
      else if truthy (marketplace b) then marketplace b else Some ''amazon.com'') \<and>
   country (merged_entry e b) =
     (if truthy (country e) then country e
      else if truthy (country b) then country b else Some ''US'') \<and>
   (map_of m (normTitle t) = Some e \<and> title b = Some t \<and> t \<noteq> [] \<longrightarrow>
      map_of (dedup_step now m b) (normTitle t) = Some (merged_entry e b)) \<and>
   asin (merged_stored now e b) = (case asin b of Some v \<Rightarrow> Some v | None \<Rightarrow> asin e) \<and>
   marketplace (merged_stored now e b) =
     (case marketplace b of Some v \<Rightarrow> Some v | None \<Rightarrow> marketplace e) \<and>
   country (merged_stored now e b) =
     (case country b of Some v \<Rightarrow> Some v | None \<Rightarrow> country e) \<and>
   (map_of m k = Some e \<and> storeKey b = Some k \<and> k \<noteq> [] \<longrightarrow>
      map_of (store_new now m b) k = Some (merged_stored now e b))"
  by (simp add: merged_entry_def orDefault_def orS_def dedup_step_def Let_def update_conv'
      merged_stored_def spread_def over_def store_new_def)

theorem string_fields_in_merges_witness:
  "country (merged_entry (new_entry now0 stored_book) fresh_book) = Some ''US'' \<and>
   marketplace (merged_entry (new_entry now0 stored_book) fresh_book) = Some ''amazon.com'' \<and>
   map_of (dedup_step now0 [(normTitle ''Empath and Psychic Abilities'', new_entry now0 stored_book)]
             fresh_book) (normTitle ''Empath and Psychic Abilities'') =
     Some (merged_entry (new_entry now0 stored_book) fresh_book) \<and>
   map_of (store_new now0 [(''B0BWFC3554'', stored_book)] fresh_book) ''B0BWFC3554'' =
     Some (merged_stored now0 stored_book fresh_book) \<and>
   country (merged_stored now0 stored_book fresh_book) = Some ''DE''"
proof -
  have t: "title fresh_book = Some ''Empath and Psychic Abilities''"
    by (simp add: fresh_book_def titled_def)
  have k: "storeKey fresh_book = Some ''B0BWFC3554''"
    by (simp add: storeKey_def orS_def truthy_def fresh_book_def titled_def)
  have c: "country (new_entry now0 stored_book) = Some ''US''"
    "marketplace (new_entry now0 stored_book) = Some ''amazon.com''"
    by (simp_all add: new_entry_def orDefault_def truthy_def stored_book_def titled_def)
  have f: "country fresh_book = Some ''DE''"
    by (simp add: fresh_book_def titled_def)
  from string_fields_in_merges[where e = "new_entry now0 stored_book" and b = fresh_book
      and m = "[(normTitle ''Empath and Psychic Abilities'', new_entry now0 stored_book)]"
      and t = "''Empath and Psychic Abilities''" and now = now0 and k = "''B0BWFC3554''"]
    string_fields_in_merges[where e = stored_book and b = fresh_book
      and m = "[(''B0BWFC3554'', stored_book)]"
      and t = "''Empath and Psychic Abilities''" and now = now0 and k = "''B0BWFC3554''"]
    t k c f
  show ?thesis by (simp add: truthy_def)
qed

text \<open>
  Claim C5 as stated fails in the background script: the stored country US and the
  stored marketplace amazon.com, both non-empty, are replaced by those of the new book.
\<close>

theorem stored_fields_overwritten_counterexample:
  "map country (mergeBookData_bg now0 [stored_book] [fresh_book]) = [Some ''DE''] \<and>
   map marketplace (mergeBookData_bg now0 [stored_book] [fresh_book]) = [Some ''amazon.de'']"
  by code_simp

section \<open>The fallback id\<close>

text \<open>
  Claim C9, as amended. \<open>enhanceBookData\<close> gives a book that has neither an id nor an
  identifier the id generated from the random draw of the call, and leaves the id of any
  other book as it is; the id does not depend on the title.
\<close>

theorem fallback_id_is_drawn:
  "book_id (enhanceBookData r b) =
     (if \<not> truthy (book_id b) \<and> \<not> truthy (asin b) then Some (generated_id r) else book_id b) \<and>
   book_id (enhanceBookData r (b\<lparr>title := t\<rparr>)) = book_id (enhanceBookData r b)"
  by (simp add: enhanceBookData_def Let_def)

theorem fallback_id_is_drawn_witness:
  "book_id (enhanceBookData (fixed_draws 0) sold_book) = Some ''00010203040506ff'' \<and>
   book_id (enhanceBookData (fixed_draws 0) fresh_book) = None"
proof -
  have g: "generated_id (fixed_draws 0) = ''00010203040506ff''"
    by code_simp
  have s: "\<not> truthy (book_id sold_book)" "\<not> truthy (asin sold_book)"
    by (simp_all add: truthy_def sold_book_def titled_def)
  have f: "truthy (asin fresh_book)" "book_id fresh_book = None"
    by (simp_all add: truthy_def fresh_book_def titled_def)
  from fallback_id_is_drawn[of "fixed_draws 0" sold_book]
    fallback_id_is_drawn[of "fixed_draws 0" fresh_book] g s f
  show ?thesis by simp
qed

text \<open>
  Claim C9 as stated fails: two runs on the same candidate, with the same title and no
  identifier, give different ids when the draws differ.
\<close>

theorem fallback_id_counterexample:
  "book_id (enhanceBookData (CryptoBytes [0, 1, 2, 3, 4, 5, 6, 255]) sold_book) =
     Some ''00010203040506ff'' \<and>
   book_id (enhanceBookData (CryptoBytes [171, 205, 239, 1, 35, 69, 103, 137]) sold_book) =
     Some ''abcdef0123456789''"
  by code_simp

section \<open>The nested-object extractor\<close>

lemma then_books_simps [simp]:
  "then_books (Inl e) r = Inl e"
  "then_books (Inr xs) (Inl e) = Inl e"
  "then_books (Inr xs) (Inr ys) = Inr (xs @ ys)"
  by (simp_all add: then_books_def)






















lemma loop_heap_cyclic: "\<not> depth_at_most n loop_heap 0"
  by (induction n) (simp_all add: loop_heap_def refs_of_def refs_in_def entries_def)









end
